theory Spec2Isabelle
  imports Main
begin

section \<open>Values exchanged by the account-provisioning pipeline\<close>

text \<open>
  The development embeds \<^verbatim>\<open>packages/pds/src/api/com/atproto/server/createAccount.ts\<close>
  and \<^verbatim>\<open>packages/pds/src/prism-plc.ts\<close>. Every \<^verbatim>\<open>throw\<close> of the source is a value of
  type \<open>error\<close>; an asynchronous function is a state transformer over a \<open>world\<close> that
  returns either the thrown error (\<open>Inl\<close>) or the awaited value (\<open>Inr\<close>).
\<close>

type_synonym did = string

datatype error =
    InvalidRequestError string "string option"  \<comment> \<open>message, optional error name\<close>
  | AuthRequiredError string
  | Error string  \<comment> \<open>a plain JavaScript \<^verbatim>\<open>Error\<close>, also what a collaborator may throw\<close>

text \<open>A keypair is known to this code through \<^verbatim>\<open>.did()\<close> and as a signer.\<close>

datatype keypair = Keypair (keypair_did: string)

text \<open>\<^verbatim>\<open>plc.Operation\<close>: only \<^verbatim>\<open>rotationKeys\<close> is inspected by this code.\<close>

record operation =
  rotationKeys :: "string list"
  verificationMethods :: "(string \<times> string) list"
  alsoKnownAs :: "string list"
  services :: "(string \<times> string) list"
  prev :: "string option"
  sig :: string

text \<open>\<^verbatim>\<open>interface PrismUnsignedTransaction\<close> and \<^verbatim>\<open>interface PrismTransaction extends ...\<close>.\<close>

record prism_unsigned_transaction =
  tx_did :: string
  tx_operation :: operation
  tx_nonce :: int
  tx_vk :: string

record prism_transaction = prism_unsigned_transaction +
  tx_signature :: string

text \<open>The argument and the result of the PLC library's \<^verbatim>\<open>createOp\<close>.\<close>

record create_op_input =
  co_signingKey :: string
  co_rotationKeys :: "string list"
  co_handle :: string
  co_pds :: string
  co_signer :: keypair

record create_op_result =
  res_op :: operation
  res_did :: string

text \<open>\<^verbatim>\<open>CommitData\<close> of the repository: \<^verbatim>\<open>cid\<close> and \<^verbatim>\<open>rev\<close> are read here, the rest is opaque.\<close>

record commit =
  cid :: string
  rev :: string
  blocks :: string

datatype account_status = Active | Deactivated

type_synonym did_document = string
type_synonym sync_evt_data = string

record credentials =
  accessJwt :: string
  refreshJwt :: string

text \<open>The object literal passed to \<^verbatim>\<open>createAccountAndSession\<close>.\<close>

record account_fields =
  acc_did :: string
  acc_handle :: string
  acc_email :: "string option"
  acc_password :: "string option"
  acc_repoCid :: string
  acc_repoRev :: string
  acc_inviteCode :: "string option"
  acc_deactivated :: bool

text \<open>\<^verbatim>\<open>AtprotoData\<close>, as returned by \<^verbatim>\<open>ensureAtpDocument\<close>.\<close>

record atproto_data =
  data_did :: string
  data_signingKey :: string
  data_handle :: string
  data_pds :: string

text \<open>\<^verbatim>\<open>CreateAccountInput\<close>: the request body. Optional fields are \<open>option\<close>s.\<close>

record create_account_input =
  in_email :: "string option"
  in_handle :: string
  in_did :: "string option"
  in_inviteCode :: "string option"
  in_password :: "string option"
  in_recoveryKey :: "string option"
  in_plcOp :: "operation option"

text \<open>The object both validators return (the provisioning plan).\<close>

record plan =
  plan_did :: string
  plan_handle :: string
  plan_email :: "string option"
  plan_password :: "string option"
  plan_inviteCode :: "string option"
  plan_signingKey :: keypair
  plan_plcOp :: "operation option"
  plan_deactivated :: bool

text \<open>The handler's response body.\<close>

record response =
  out_handle :: string
  out_did :: string
  out_didDoc :: "did_document option"
  out_accessJwt :: string
  out_refreshJwt :: string

section \<open>Collaborators, configuration and the world\<close>

text \<open>
  Every call that leaves this code is recorded, with its arguments, in the order in which
  it is made. \<^verbatim>\<open>console.log\<close> and \<^verbatim>\<open>req.log.error\<close> only write diagnostics and are
  not recorded.
\<close>

datatype call =
    PlcCreateOp create_op_input
  | AddSignature prism_unsigned_transaction keypair
  | AxiosPost string prism_transaction
  | SetTimeout nat
  | BaseNormalizeAndValidate string
  | AssureValidOp operation
  | AssureValidSig "string list" operation
  | EnsureAtpDocument did operation
  | GetReservedKeypair string
  | NormalizeAndValidateHandle string "string option"
  | EnsureInviteIsAvailable string
  | GetAccount string
  | GetAccountByEmail string
  | Secp256k1KeypairCreate
  | ActorStoreCreate did keypair
  | CreateRepo did
  | SafeResolveDidDoc did bool
  | CreateAccountAndSession account_fields
  | SequenceIdentityEvt did string
  | SequenceAccountEvt did account_status
  | SequenceCommit did commit
  | SequenceSyncEvt did sync_evt_data
  | UpdateRepoRoot did string string
  | ClearReservedKeypair string did
  | ActorStoreDestroy did

text \<open>
  The code under \<^verbatim>\<open>src/\<close> calls libraries and services whose code is not part of it.
  Their behaviour is a parameter: for every call, what it returns or throws.
\<close>

record env =
  plc_createOp :: "create_op_input \<Rightarrow> error + create_op_result"
  plc_addSignature :: "prism_unsigned_transaction \<Rightarrow> keypair \<Rightarrow> error + string"
  axios_post :: "string \<Rightarrow> prism_transaction \<Rightarrow> error option"
  baseNormalizeAndValidate :: "string \<Rightarrow> error + string"
  check_is_operation :: "operation \<Rightarrow> bool"
  plc_assureValidOp :: "operation \<Rightarrow> error option"
  plc_assureValidSig :: "string list \<Rightarrow> operation \<Rightarrow> error option"
  ensureAtpDocument :: "did \<Rightarrow> operation \<Rightarrow> error + atproto_data"
  getReservedKeypair :: "string \<Rightarrow> error + keypair option"
  new_password_max_length :: nat
  isEmailValid :: "string \<Rightarrow> bool"
  isDisposableEmail :: "string \<Rightarrow> bool"
  normalizeAndValidateHandle :: "string \<Rightarrow> string option \<Rightarrow> error + string"
  ensureInviteIsAvailable :: "string \<Rightarrow> error option"
  getAccount :: "string \<Rightarrow> error + bool"
  getAccountByEmail :: "string \<Rightarrow> error + bool"
  getAccount_rejects_first :: bool
  secp256k1_create :: keypair
  actorStore_create :: "did \<Rightarrow> keypair \<Rightarrow> error option"
  actorStore_createRepo :: "did \<Rightarrow> error + commit"
  actorStore_destroy :: "did \<Rightarrow> error option"
  actorStore_clearReservedKeypair :: "string \<Rightarrow> did \<Rightarrow> error option"
  safeResolveDidDoc :: "did \<Rightarrow> bool \<Rightarrow> error + did_document option"
  createAccountAndSession :: "account_fields \<Rightarrow> error + credentials"
  updateRepoRoot :: "did \<Rightarrow> string \<Rightarrow> string \<Rightarrow> error option"
  sequenceIdentityEvt :: "did \<Rightarrow> string \<Rightarrow> error option"
  sequenceAccountEvt :: "did \<Rightarrow> account_status \<Rightarrow> error option"
  sequenceCommit :: "did \<Rightarrow> commit \<Rightarrow> error option"
  sequenceSyncEvt :: "did \<Rightarrow> sync_evt_data \<Rightarrow> error option"
  syncEvtDataFromCommit :: "commit \<Rightarrow> sync_evt_data"

text \<open>\<^verbatim>\<open>AppContext\<close>: the fields of \<^verbatim>\<open>ctx\<close> and \<^verbatim>\<open>ctx.cfg\<close> that the code reads.\<close>

record app_context =
  entrywayAgent :: bool  \<comment> \<open>whether \<^verbatim>\<open>ctx.entrywayAgent\<close> is set\<close>
  plcRotationKey :: keypair  \<comment> \<open>\<^verbatim>\<open>ctx.plcRotationKey\<close>, the service's own key\<close>
  cfg_entryway_plcRotationKey :: "string option"  \<comment> \<open>\<^verbatim>\<open>ctx.cfg.entryway?.plcRotationKey\<close>\<close>
  cfg_identity_recoveryDidKey :: "string option"
  cfg_service_publicUrl :: string
  cfg_invites_required :: bool

text \<open>
  The world: the calls made so far and the DIDs that have an actor store (the per-DID
  repository storage).
\<close>

record world =
  calls :: "call list"
  actorStores :: "did set"

type_synonym 'a prog = "world \<Rightarrow> (error + 'a) \<times> world"

definition ret :: "'a \<Rightarrow> 'a prog" where
  "ret x = (\<lambda>w. (Inr x, w))"

definition throw :: "error \<Rightarrow> 'a prog" where
  "throw e = (\<lambda>w. (Inl e, w))"

text \<open>\<^verbatim>\<open>const x = await m; ...\<close>: a thrown error skips the rest.\<close>

definition await :: "'a prog \<Rightarrow> ('a \<Rightarrow> 'b prog) \<Rightarrow> 'b prog" where
  "await m f = (\<lambda>w. case m w of (Inl e, w') \<Rightarrow> (Inl e, w') | (Inr x, w') \<Rightarrow> f x w')"

text \<open>\<^verbatim>\<open>try { m } catch (err) { h(err) }\<close>.\<close>

definition try_catch :: "'a prog \<Rightarrow> (error \<Rightarrow> 'a prog) \<Rightarrow> 'a prog" where
  "try_catch m h = (\<lambda>w. case m w of (Inl e, w') \<Rightarrow> h e w' | (Inr x, w') \<Rightarrow> (Inr x, w'))"

text \<open>A call to a collaborator: it is recorded, and its outcome is the awaited result.\<close>

definition invoke :: "call \<Rightarrow> error + 'a \<Rightarrow> 'a prog" where
  "invoke c outcome = (\<lambda>w. (outcome, w\<lparr>calls := calls w @ [c]\<rparr>))"

definition void :: "error option \<Rightarrow> error + unit" where
  "void outcome = (case outcome of None \<Rightarrow> Inr () | Some e \<Rightarrow> Inl e)"

text \<open>JavaScript truthiness of an optional string: \<^verbatim>\<open>undefined\<close> and \<^verbatim>\<open>''\<close> are falsy.\<close>

definition truthy :: "string option \<Rightarrow> bool" where
  "truthy s = (case s of None \<Rightarrow> False | Some v \<Rightarrow> v \<noteq> [])"

section \<open>\<^verbatim>\<open>prism-plc.ts\<close>\<close>

text \<open>
  \<^verbatim>\<open>String.prototype.replace\<close> with a string pattern: the first occurrence of the pattern
  is replaced (the replacement used here holds no \<^verbatim>\<open>$\<close> pattern).
\<close>

fun js_replace :: "string \<Rightarrow> string \<Rightarrow> string \<Rightarrow> string" where
  "js_replace pat rep [] = (if pat = [] then rep else [])"
| "js_replace pat rep (c # cs) =
     (if take (length pat) (c # cs) = pat then rep @ drop (length pat) (c # cs)
      else c # js_replace pat rep cs)"

definition createOp :: "env \<Rightarrow> create_op_input \<Rightarrow> create_op_result prog" where
  "createOp ev inp =
     await (invoke (PlcCreateOp inp) (plc_createOp ev inp)) (\<lambda>result.
       let prismDid = js_replace ''did:plc:'' ''did:prism:'' (res_did result)
       in ret (result\<lparr>res_did := prismDid\<rparr>))"

section \<open>\<^verbatim>\<open>createAccount.ts\<close>: minting a DID and its operation\<close>

text \<open>Lines 328 to 334 of \<^verbatim>\<open>formatDidAndPlcOp\<close>: \<^verbatim>\<open>unshift\<close> puts a key in front.\<close>

definition formatRotationKeys :: "app_context \<Rightarrow> create_account_input \<Rightarrow> string list" where
  "formatRotationKeys ctx inp =
     (let rotationKeys = [keypair_did (plcRotationKey ctx)];
          rotationKeys = (if truthy (cfg_identity_recoveryDidKey ctx)
                          then the (cfg_identity_recoveryDidKey ctx) # rotationKeys
                          else rotationKeys);
          rotationKeys = (if truthy (in_recoveryKey inp)
                          then the (in_recoveryKey inp) # rotationKeys
                          else rotationKeys)
      in rotationKeys)"

definition formatDidAndPlcOp ::
  "app_context \<Rightarrow> env \<Rightarrow> string \<Rightarrow> create_account_input \<Rightarrow> keypair
     \<Rightarrow> (string \<times> operation option) prog" where
  "formatDidAndPlcOp ctx ev handle inp signingKey =
     await (createOp ev
              \<lparr>co_signingKey = keypair_did signingKey,
               co_rotationKeys = formatRotationKeys ctx inp,
               co_handle = handle,
               co_pds = cfg_service_publicUrl ctx,
               co_signer = plcRotationKey ctx\<rparr>)
       (\<lambda>plcCreate. ret (res_did plcCreate, Some (res_op plcCreate)))"

text \<open>The keys a request and a configuration supply, as a list of zero or one element.\<close>

definition supplied :: "string option \<Rightarrow> string list" where
  "supplied s = (if truthy s then [the s] else [])"

section \<open>\<^verbatim>\<open>createAccount.ts\<close>: the ledger transaction submitter\<close>

text \<open>Lines 36 to 41, lines 50 to 53 and the address of line 62.\<close>

definition unsignedTransaction ::
  "string \<Rightarrow> operation \<Rightarrow> keypair \<Rightarrow> prism_unsigned_transaction" where
  "unsignedTransaction did plcOp rotationKeySigner =
     \<lparr>tx_did = did, tx_operation = plcOp, tx_nonce = 0,
      tx_vk = keypair_did rotationKeySigner\<rparr>"

definition transaction :: "prism_unsigned_transaction \<Rightarrow> string \<Rightarrow> prism_transaction" where
  "transaction unsigned signature =
     \<lparr>tx_did = tx_did unsigned, tx_operation = tx_operation unsigned,
      tx_nonce = tx_nonce unsigned, tx_vk = tx_vk unsigned, tx_signature = signature\<rparr>"

definition prism_url :: string where
  "prism_url = ''http://host.docker.internal:41997/transaction_2''"

text \<open>
  \<^verbatim>\<open>createAndSendPrismTransaction\<close>. The library call \<^verbatim>\<open>axios.post\<close> is one recorded
  call whose promise resolves or rejects as the environment says: which responses of the
  ledger make it do so (status codes, redirects that the library follows, network errors)
  is the library's matter.
\<close>

definition createAndSendPrismTransaction ::
  "env \<Rightarrow> string \<Rightarrow> operation \<Rightarrow> keypair \<Rightarrow> unit prog" where
  "createAndSendPrismTransaction ev did plcOp rotationKeySigner =
     await (invoke (AddSignature (unsignedTransaction did plcOp rotationKeySigner)
                      rotationKeySigner)
              (plc_addSignature ev (unsignedTransaction did plcOp rotationKeySigner)
                 rotationKeySigner))
       (\<lambda>signedTransaction_sig.
          try_catch
            (await (invoke (AxiosPost prism_url
                              (transaction (unsignedTransaction did plcOp rotationKeySigner)
                                 signedTransaction_sig))
                      (void (axios_post ev prism_url
                               (transaction (unsignedTransaction did plcOp rotationKeySigner)
                                  signedTransaction_sig))))
               (\<lambda>_. invoke (SetTimeout 10000) (Inr ())))
            (\<lambda>error. throw (Error
               ''Failed to send transaction to Prism server :-( ORBSTACK??'')))"

section \<open>\<^verbatim>\<open>createAccount.ts\<close>: the two validators\<close>

definition validateAtprotoData ::
  "atproto_data \<Rightarrow> string \<Rightarrow> string \<Rightarrow> string \<Rightarrow> unit prog" where
  "validateAtprotoData data expected_handle expected_pds expected_signingKey =
     (if data_handle data \<noteq> expected_handle then
        throw (InvalidRequestError ''provided handle does not match DID document handle''
                 (Some ''IncompatibleDidDoc''))
      else if data_pds data \<noteq> expected_pds then
        throw (InvalidRequestError
                 ''DID document pds endpoint does not match service endpoint''
                 (Some ''IncompatibleDidDoc''))
      else if data_signingKey data \<noteq> expected_signingKey then
        throw (InvalidRequestError
                 ''DID document signing key does not match service signing key''
                 (Some ''IncompatibleDidDoc''))
      else ret ())"

text \<open>
  \<^verbatim>\<open>validateInputsForEntrywayPds\<close>. The environment's \<open>ensureAtpDocument\<close> stands for
  \<^verbatim>\<open>ensureAtpDocument(plc.formatDidDoc({ did, ...plcOp }))\<close>.
\<close>

definition validateInputsForEntrywayPds ::
  "app_context \<Rightarrow> env \<Rightarrow> create_account_input \<Rightarrow> plan prog" where
  "validateInputsForEntrywayPds ctx ev inp =
     await (invoke (BaseNormalizeAndValidate (in_handle inp))
              (baseNormalizeAndValidate ev (in_handle inp)))
       (\<lambda>handle.
     if \<not> truthy (in_did inp) \<or> in_plcOp inp = None then
       throw (InvalidRequestError ''non-entryway pds requires bringing a DID and plcOp'' None)
     else
       let did = the (in_did inp); plcOp = the (in_plcOp inp) in
       if \<not> check_is_operation ev plcOp then
         throw (InvalidRequestError ''invalid plc operation'' (Some ''IncompatibleDidDoc''))
       else
         let plcRotationKey = cfg_entryway_plcRotationKey ctx in
         if \<not> truthy plcRotationKey \<or> the plcRotationKey \<notin> set (rotationKeys plcOp) then
           throw (InvalidRequestError ''PLC DID does not include service rotation key''
                    (Some ''IncompatibleDidDoc''))
         else
           await (try_catch
                    (await (invoke (AssureValidOp plcOp) (void (plc_assureValidOp ev plcOp)))
                       (\<lambda>_. invoke (AssureValidSig [the plcRotationKey] plcOp)
                               (void (plc_assureValidSig ev [the plcRotationKey] plcOp))))
                    (\<lambda>err. throw (InvalidRequestError ''invalid plc operation''
                                    (Some ''IncompatibleDidDoc''))))
             (\<lambda>_.
           await (invoke (EnsureAtpDocument did plcOp) (ensureAtpDocument ev did plcOp))
             (\<lambda>data.
           await (if truthy (in_did inp)
                  then invoke (GetReservedKeypair did) (getReservedKeypair ev did)
                  else ret None)
             (\<lambda>signingKey.
           await (if signingKey = None
                  then invoke (GetReservedKeypair (data_signingKey data))
                         (getReservedKeypair ev (data_signingKey data))
                  else ret signingKey)
             (\<lambda>signingKey.
           if signingKey = None then
             throw (InvalidRequestError ''reserved signing key does not exist'' None)
           else
             await (validateAtprotoData data handle (cfg_service_publicUrl ctx)
                      (keypair_did (the signingKey)))
               (\<lambda>_. ret \<lparr>plan_did = did, plan_handle = handle, plan_email = None,
                          plan_password = None, plan_inviteCode = None,
                          plan_signingKey = the signingKey, plan_plcOp = Some plcOp,
                          plan_deactivated = False\<rparr>))))))"

text \<open>Decimal digits of a number, for the template string of one error message.\<close>

fun string_of_nat :: "nat \<Rightarrow> string" where
  "string_of_nat n =
     (if n < 10 then [char_of (48 + n)]
      else string_of_nat (n div 10) @ [char_of (48 + n mod 10)])"

text \<open>
  \<^verbatim>\<open>Promise.all\<close> of two calls: both are started, in order; the result is the pair of
  their values, or the rejection that comes first in time. When both reject, the flag says
  whether the first call's rejection is the earlier one.
\<close>

definition promise_all :: "bool \<Rightarrow> 'a prog \<Rightarrow> 'b prog \<Rightarrow> ('a \<times> 'b) prog" where
  "promise_all first_rejects_first m1 m2 =
     (\<lambda>w. case m1 w of (r1, w1) \<Rightarrow>
           (case m2 w1 of (r2, w2) \<Rightarrow>
              ((case r1 of
                  Inl e1 \<Rightarrow>
                    (case r2 of
                       Inl e2 \<Rightarrow> Inl (if first_rejects_first then e1 else e2)
                     | Inr b \<Rightarrow> Inl e1)
                | Inr a \<Rightarrow> (case r2 of Inl e2 \<Rightarrow> Inl e2 | Inr b \<Rightarrow> Inr (a, b))),
               w2)))"

text \<open>
  \<^verbatim>\<open>validateInputsForLocalPds\<close>. \<open>requester\<close> is \<^verbatim>\<open>auth.credentials?.did ?? null\<close>.
  \<open>length\<close> counts the characters of an ASCII password as \<^verbatim>\<open>password.length\<close> does.
\<close>

definition validateInputsForLocalPds ::
  "app_context \<Rightarrow> env \<Rightarrow> create_account_input \<Rightarrow> string option \<Rightarrow> plan prog" where
  "validateInputsForLocalPds ctx ev inp requester =
     (let email = in_email inp; password = in_password inp; inviteCode = in_inviteCode inp in
      if in_plcOp inp \<noteq> None then
        throw (InvalidRequestError
                 (''Unsupported input: '' @ [CHR 0x22] @ ''plcOp'' @ [CHR 0x22]) None)
      else if truthy password \<and> length (the password) > new_password_max_length ev then
        throw (InvalidRequestError
                 (''Password too long. Maximum length is ''
                    @ string_of_nat (new_password_max_length ev) @ '' characters.'') None)
      else if cfg_invites_required ctx \<and> \<not> truthy inviteCode then
        throw (InvalidRequestError ''No invite code provided'' (Some ''InvalidInviteCode''))
      else if \<not> truthy email then
        throw (InvalidRequestError ''Email is required'' None)
      else if \<not> isEmailValid ev (the email) \<or> isDisposableEmail ev (the email) then
        throw (InvalidRequestError
                 ''This email address is not supported, please use a different email.'' None)
      else
        await (invoke (NormalizeAndValidateHandle (in_handle inp) (in_did inp))
                 (normalizeAndValidateHandle ev (in_handle inp) (in_did inp)))
          (\<lambda>handle.
        await (if cfg_invites_required ctx \<and> truthy inviteCode
               then invoke (EnsureInviteIsAvailable (the inviteCode))
                      (void (ensureInviteIsAvailable ev (the inviteCode)))
               else ret ())
          (\<lambda>_.
        await (promise_all (getAccount_rejects_first ev)
                 (invoke (GetAccount handle) (getAccount ev handle))
                 (invoke (GetAccountByEmail (the email)) (getAccountByEmail ev (the email))))
          (\<lambda>(handleAccnt, emailAcct).
        if handleAccnt then
          throw (InvalidRequestError (''Handle already taken: '' @ handle) None)
        else if emailAcct then
          throw (InvalidRequestError (''Email already taken: '' @ the email) None)
        else
          await (invoke Secp256k1KeypairCreate (Inr (secp256k1_create ev)))
            (\<lambda>signingKey.
          if truthy (in_did inp) then
            if in_did inp \<noteq> requester then
              throw (AuthRequiredError
                       (''Missing auth to create account with did: '' @ the (in_did inp)))
            else
              ret \<lparr>plan_did = the (in_did inp), plan_handle = handle, plan_email = email,
                   plan_password = password, plan_inviteCode = inviteCode,
                   plan_signingKey = signingKey, plan_plcOp = None,
                   plan_deactivated = True\<rparr>
          else
            await (formatDidAndPlcOp ctx ev handle inp signingKey)
              (\<lambda>(did, plcOp).
                 ret \<lparr>plan_did = did, plan_handle = handle, plan_email = email,
                      plan_password = password, plan_inviteCode = inviteCode,
                      plan_signingKey = signingKey, plan_plcOp = plcOp,
                      plan_deactivated = False\<rparr>))))))"

text \<open>
  The request passes every check of lines 237 to 282, those that come before the validator
  looks at the supplied DID.
\<close>

definition passesLocalChecks :: "app_context \<Rightarrow> env \<Rightarrow> create_account_input \<Rightarrow> bool" where
  "passesLocalChecks ctx ev inp =
     (in_plcOp inp = None
      \<and> \<not> (truthy (in_password inp)
            \<and> length (the (in_password inp)) > new_password_max_length ev)
      \<and> \<not> (cfg_invites_required ctx \<and> \<not> truthy (in_inviteCode inp))
      \<and> truthy (in_email inp)
      \<and> isEmailValid ev (the (in_email inp))
      \<and> \<not> isDisposableEmail ev (the (in_email inp))
      \<and> (case normalizeAndValidateHandle ev (in_handle inp) (in_did inp) of
            Inl e \<Rightarrow> False
          | Inr handle \<Rightarrow>
              (cfg_invites_required ctx \<and> truthy (in_inviteCode inp)
                 \<longrightarrow> ensureInviteIsAvailable ev (the (in_inviteCode inp)) = None)
              \<and> getAccount ev handle = Inr False
              \<and> getAccountByEmail ev (the (in_email inp)) = Inr False))"

section \<open>\<^verbatim>\<open>createAccount.ts\<close>: the handler\<close>

text \<open>
  Modelled from the spec: the repository store (\<^verbatim>\<open>ctx.actorStore\<close>), whose code is not
  under \<^verbatim>\<open>src/\<close>. Its operations are scoped by DID: a \<^verbatim>\<open>create\<close> that returns leaves
  a store for the DID, a \<^verbatim>\<open>destroy\<close> that returns leaves none, and a call that throws
  changes nothing.
\<close>

definition actorStore_create_call :: "env \<Rightarrow> did \<Rightarrow> keypair \<Rightarrow> unit prog" where
  "actorStore_create_call ev did signingKey =
     (\<lambda>w. case actorStore_create ev did signingKey of
             Some e \<Rightarrow> (Inl e, w\<lparr>calls := calls w @ [ActorStoreCreate did signingKey]\<rparr>)
           | None \<Rightarrow> (Inr (), w\<lparr>calls := calls w @ [ActorStoreCreate did signingKey],
                                 actorStores := insert did (actorStores w)\<rparr>))"

text \<open>
  Modelled from the spec: \<^verbatim>\<open>ctx.actorStore.destroy\<close>, the other operation of the
  repository store whose code is not under \<^verbatim>\<open>src/\<close>.
\<close>

definition actorStore_destroy_call :: "env \<Rightarrow> did \<Rightarrow> unit prog" where
  "actorStore_destroy_call ev did =
     (\<lambda>w. case actorStore_destroy ev did of
             Some e \<Rightarrow> (Inl e, w\<lparr>calls := calls w @ [ActorStoreDestroy did]\<rparr>)
           | None \<Rightarrow> (Inr (), w\<lparr>calls := calls w @ [ActorStoreDestroy did],
                                 actorStores := actorStores w - {did}\<rparr>))"

text \<open>Lines 141 to 147: the four sequencer calls.\<close>

definition sequenceEvents :: "env \<Rightarrow> did \<Rightarrow> string \<Rightarrow> commit \<Rightarrow> unit prog" where
  "sequenceEvents ev did handle commit =
     await (invoke (SequenceIdentityEvt did handle) (void (sequenceIdentityEvt ev did handle)))
       (\<lambda>_.
     await (invoke (SequenceAccountEvt did Active) (void (sequenceAccountEvt ev did Active)))
       (\<lambda>_.
     await (invoke (SequenceCommit did commit) (void (sequenceCommit ev did commit)))
       (\<lambda>_.
     invoke (SequenceSyncEvt did (syncEvtDataFromCommit ev commit))
       (void (sequenceSyncEvt ev did (syncEvtDataFromCommit ev commit))))))"

text \<open>Lines 112 to 122: the ledger submission, made when the plan carries an operation.\<close>

definition submitToPrism :: "app_context \<Rightarrow> env \<Rightarrow> plan \<Rightarrow> unit prog" where
  "submitToPrism ctx ev p =
     (case plan_plcOp p of
        Some plcOp \<Rightarrow>
          try_catch (createAndSendPrismTransaction ev (plan_did p) plcOp (plcRotationKey ctx))
            (\<lambda>err. throw err)
      | None \<Rightarrow> ret ())"

text \<open>Lines 128 to 137: the object given to \<^verbatim>\<open>createAccountAndSession\<close>.\<close>

definition accountFields :: "plan \<Rightarrow> commit \<Rightarrow> account_fields" where
  "accountFields p commit =
     \<lparr>acc_did = plan_did p, acc_handle = plan_handle p, acc_email = plan_email p,
      acc_password = plan_password p, acc_repoCid = cid commit, acc_repoRev = rev commit,
      acc_inviteCode = plan_inviteCode p, acc_deactivated = plan_deactivated p\<rparr>"

text \<open>Lines 124 to 150: from the resolution of the DID document to the end of the \<^verbatim>\<open>try\<close>.\<close>

definition persistAndSequence ::
  "env \<Rightarrow> plan \<Rightarrow> commit \<Rightarrow> (did_document option \<times> credentials) prog" where
  "persistAndSequence ev p commit =
     (let did = plan_did p; handle = plan_handle p; signingKey = plan_signingKey p;
          deactivated = plan_deactivated p in
      await (invoke (SafeResolveDidDoc did True) (safeResolveDidDoc ev did True))
        (\<lambda>didDoc.
      await (invoke (CreateAccountAndSession (accountFields p commit))
               (createAccountAndSession ev (accountFields p commit)))
        (\<lambda>creds.
      await (if \<not> deactivated then sequenceEvents ev did handle commit else ret ())
        (\<lambda>_.
      await (invoke (UpdateRepoRoot did (cid commit) (rev commit))
               (void (updateRepoRoot ev did (cid commit) (rev commit))))
        (\<lambda>_.
      await (invoke (ClearReservedKeypair (keypair_did signingKey) did)
               (void (actorStore_clearReservedKeypair ev (keypair_did signingKey) did)))
        (\<lambda>_. ret (didDoc, creds)))))))"

text \<open>Lines 107 to 150: the body of the handler's \<^verbatim>\<open>try\<close>.\<close>

definition tryBlock ::
  "app_context \<Rightarrow> env \<Rightarrow> plan \<Rightarrow> (did_document option \<times> credentials) prog" where
  "tryBlock ctx ev p =
     await (invoke (CreateRepo (plan_did p)) (actorStore_createRepo ev (plan_did p)))
       (\<lambda>commit.
     await (submitToPrism ctx ev p)
       (\<lambda>_. persistAndSequence ev p commit))"

text \<open>Lines 151 to 156: the \<^verbatim>\<open>catch\<close>.\<close>

definition catchBlock :: "env \<Rightarrow> did \<Rightarrow> error \<Rightarrow> 'a prog" where
  "catchBlock ev did err = await (actorStore_destroy_call ev did) (\<lambda>_. throw err)"

text \<open>Lines 103 to 167: what the handler does with the validated plan.\<close>

definition provision :: "app_context \<Rightarrow> env \<Rightarrow> plan \<Rightarrow> response prog" where
  "provision ctx ev p =
     await (actorStore_create_call ev (plan_did p) (plan_signingKey p))
       (\<lambda>_.
     await (try_catch (tryBlock ctx ev p) (catchBlock ev (plan_did p)))
       (\<lambda>(didDoc, creds).
          ret \<lparr>out_handle = plan_handle p, out_did = plan_did p, out_didDoc = didDoc,
               out_accessJwt = accessJwt creds, out_refreshJwt = refreshJwt creds\<rparr>))"

definition validateInputs ::
  "app_context \<Rightarrow> env \<Rightarrow> create_account_input \<Rightarrow> string option \<Rightarrow> plan prog" where
  "validateInputs ctx ev inp requester =
     (if entrywayAgent ctx then validateInputsForEntrywayPds ctx ev inp
      else validateInputsForLocalPds ctx ev inp requester)"

definition handler ::
  "app_context \<Rightarrow> env \<Rightarrow> create_account_input \<Rightarrow> string option \<Rightarrow> response prog" where
  "handler ctx ev inp requester =
     await (validateInputs ctx ev inp requester) (provision ctx ev)"

text \<open>
  An empty world, and kinds of calls: sequencer calls, ledger posts and writes to the
  account store.
\<close>

definition world0 :: world where
  "world0 = \<lparr>calls = [], actorStores = {}\<rparr>"

fun is_sequencing :: "call \<Rightarrow> bool" where
  "is_sequencing (SequenceIdentityEvt d h) = True"
| "is_sequencing (SequenceAccountEvt d s) = True"
| "is_sequencing (SequenceCommit d c) = True"
| "is_sequencing (SequenceSyncEvt d s) = True"
| "is_sequencing c = False"

fun is_post :: "call \<Rightarrow> bool" where
  "is_post (AxiosPost u t) = True"
| "is_post c = False"

fun is_account_write :: "call \<Rightarrow> bool" where
  "is_account_write (CreateAccountAndSession f) = True"
| "is_account_write (UpdateRepoRoot d c r) = True"
| "is_account_write c = False"

text \<open>
  A program only logs when, whatever the world, it has the same outcome and appends the
  same calls, and changes nothing else.
\<close>

definition logs :: "'a prog \<Rightarrow> bool" where
  "logs m = (\<exists>r cs. \<forall>w. m w = (r, w\<lparr>calls := calls w @ cs\<rparr>))"

text \<open>A program is quiet for a kind of call when running it adds no call of that kind.\<close>

definition quiet :: "(call \<Rightarrow> bool) \<Rightarrow> 'a prog \<Rightarrow> bool" where
  "quiet P m = (\<forall>w. filter P (calls (snd (m w))) = filter P (calls w))"

section \<open>A sample deployment\<close>

text \<open>
  Concrete values on which the theorems below are evaluated: collaborators that all
  succeed, a configuration for direct signup, one behind an entryway, a direct signup
  request, and the plan that the direct signup yields.
\<close>

definition demo_op :: operation where
  "demo_op = \<lparr>rotationKeys = [''did:key:zEntryway'', ''did:key:zUser''],
     verificationMethods = [(''atproto'', ''did:key:zSigning'')],
     alsoKnownAs = [''at://alice.example''],
     services = [(''atproto_pds'', ''https://pds.example'')],
     prev = None, sig = ''c2ln''\<rparr>"

definition demo_commit :: commit where
  "demo_commit = \<lparr>cid = ''bafyroot'', rev = ''3kabc'', blocks = ''car''\<rparr>"

definition demo_env :: env where
  "demo_env =
     \<lparr>plc_createOp = (\<lambda>i. Inr \<lparr>res_op = demo_op\<lparr>rotationKeys := co_rotationKeys i\<rparr>,
                                res_did = ''did:plc:ewvi7nxzyoun6zhx''\<rparr>),
      plc_addSignature = (\<lambda>u k. Inr (''sig-by-'' @ keypair_did k)),
      axios_post = (\<lambda>u t. None),
      baseNormalizeAndValidate = Inr,
      check_is_operation = (\<lambda>operation. True),
      plc_assureValidOp = (\<lambda>operation. None),
      plc_assureValidSig = (\<lambda>ks operation. None),
      ensureAtpDocument = (\<lambda>d operation.
         Inr \<lparr>data_did = d, data_signingKey = ''did:key:zSigning'',
              data_handle = ''alice.example'', data_pds = ''https://pds.example''\<rparr>),
      getReservedKeypair = (\<lambda>k. Inr (Some (Keypair ''did:key:zSigning''))),
      new_password_max_length = 256,
      isEmailValid = (\<lambda>e. True),
      isDisposableEmail = (\<lambda>e. False),
      normalizeAndValidateHandle = (\<lambda>h d. Inr h),
      ensureInviteIsAvailable = (\<lambda>c. None),
      getAccount = (\<lambda>h. Inr False),
      getAccountByEmail = (\<lambda>e. Inr False),
      getAccount_rejects_first = True,
      secp256k1_create = Keypair ''did:key:zFresh'',
      actorStore_create = (\<lambda>d k. None),
      actorStore_createRepo = (\<lambda>d. Inr demo_commit),
      actorStore_destroy = (\<lambda>d. None),
      actorStore_clearReservedKeypair = (\<lambda>k d. None),
      safeResolveDidDoc = (\<lambda>d f. Inr (Some ''doc'')),
      createAccountAndSession =
        (\<lambda>f. Inr \<lparr>accessJwt = ''access'', refreshJwt = ''refresh''\<rparr>),
      updateRepoRoot = (\<lambda>d c r. None),
      sequenceIdentityEvt = (\<lambda>d h. None),
      sequenceAccountEvt = (\<lambda>d s. None),
      sequenceCommit = (\<lambda>d c. None),
      sequenceSyncEvt = (\<lambda>d s. None),
      syncEvtDataFromCommit = blocks\<rparr>"

text \<open>The same collaborators, except that the post to the ledger is rejected.\<close>

definition demo_env_post_rejected :: env where
  "demo_env_post_rejected =
     demo_env\<lparr>axios_post := (\<lambda>u t. Some (Error ''Request failed with status code 500''))\<rparr>"

definition demo_ctx :: app_context where
  "demo_ctx = \<lparr>entrywayAgent = False, plcRotationKey = Keypair ''did:key:zService'',
     cfg_entryway_plcRotationKey = None,
     cfg_identity_recoveryDidKey = Some ''did:key:zRecovery'',
     cfg_service_publicUrl = ''https://pds.example'',
     cfg_invites_required = False\<rparr>"

definition demo_entryway_ctx :: app_context where
  "demo_entryway_ctx = \<lparr>entrywayAgent = True, plcRotationKey = Keypair ''did:key:zService'',
     cfg_entryway_plcRotationKey = Some ''did:key:zEntryway'',
     cfg_identity_recoveryDidKey = None,
     cfg_service_publicUrl = ''https://pds.example'',
     cfg_invites_required = False\<rparr>"

definition demo_input :: create_account_input where
  "demo_input = \<lparr>in_email = Some ''alice@example.com'', in_handle = ''alice.example'',
     in_did = None, in_inviteCode = None, in_password = Some ''hunter2'',
     in_recoveryKey = None, in_plcOp = None\<rparr>"

definition demo_plan :: plan where
  "demo_plan = \<lparr>plan_did = ''did:prism:ewvi7nxzyoun6zhx'', plan_handle = ''alice.example'',
     plan_email = Some ''alice@example.com'', plan_password = Some ''hunter2'',
     plan_inviteCode = None, plan_signingKey = Keypair ''did:key:zFresh'',
     plan_plcOp = Some (demo_op\<lparr>rotationKeys := [''did:key:zRecovery'', ''did:key:zService'']\<rparr>),
     plan_deactivated = False\<rparr>"

section \<open>Running a program\<close>

lemmas run_defs = ret_def throw_def await_def try_catch_def invoke_def void_def

subsection \<open>Programs that add no call of a kind, programs that only log\<close>

lemma quiet_ret: "quiet P (ret x)"
  by (simp add: quiet_def ret_def)

lemma quiet_throw: "quiet P (throw e)"
  by (simp add: quiet_def throw_def)

lemma quiet_invoke: "\<not> P c \<Longrightarrow> quiet P (invoke c outcome)"
  by (simp add: quiet_def invoke_def)

lemma quiet_await:
  assumes "quiet P m" and "\<And>x. quiet P (f x)"
  shows "quiet P (await m f)"
proof -
  have "filter P (calls (snd (await m f w))) = filter P (calls w)" for w
  proof (cases "m w")
    case (Pair r w')
    from assms(1) have m: "filter P (calls w') = filter P (calls w)"
      using Pair by (metis quiet_def snd_conv)
    show ?thesis
    proof (cases r)
      case (Inl e)
      with Pair m show ?thesis by (simp add: await_def)
    next
      case (Inr x)
      from assms(2) have "filter P (calls (snd (f x w'))) = filter P (calls w')"
        by (simp add: quiet_def)
      with Pair Inr m show ?thesis by (simp add: await_def)
    qed
  qed
  then show ?thesis by (simp add: quiet_def)
qed

lemma quiet_try_catch:
  assumes "quiet P m" and "\<And>e. quiet P (h e)"
  shows "quiet P (try_catch m h)"
proof -
  have "filter P (calls (snd (try_catch m h w))) = filter P (calls w)" for w
  proof (cases "m w")
    case (Pair r w')
    from assms(1) have m: "filter P (calls w') = filter P (calls w)"
      using Pair by (metis quiet_def snd_conv)
    show ?thesis
    proof (cases r)
      case (Inl e)
      from assms(2) have "filter P (calls (snd (h e w'))) = filter P (calls w')"
        by (simp add: quiet_def)
      with Pair Inl m show ?thesis by (simp add: try_catch_def)
    next
      case (Inr x)
      with Pair m show ?thesis by (simp add: try_catch_def)
    qed
  qed
  then show ?thesis by (simp add: quiet_def)
qed

lemma quiet_promise_all:
  assumes "quiet P m1" and "quiet P m2"
  shows "quiet P (promise_all b m1 m2)"
proof -
  have "filter P (calls (snd (promise_all b m1 m2 w))) = filter P (calls w)" for w
  proof -
    obtain r1 w1 where 1: "m1 w = (r1, w1)" by (cases "m1 w")
    obtain r2 w2 where 2: "m2 w1 = (r2, w2)" by (cases "m2 w1")
    from assms 1 2 have "filter P (calls w2) = filter P (calls w)"
      by (metis quiet_def snd_conv)
    with 1 2 show ?thesis by (simp add: promise_all_def)
  qed
  then show ?thesis by (simp add: quiet_def)
qed

lemma quiet_if: "(c \<Longrightarrow> quiet P a) \<Longrightarrow> (\<not> c \<Longrightarrow> quiet P b) \<Longrightarrow> quiet P (if c then a else b)"
  by simp

lemma quiet_case_prod: "(\<And>a b. quiet P (f a b)) \<Longrightarrow> quiet P (case_prod f x)"
  by (cases x) simp

lemma quiet_case_option:
  "quiet P a \<Longrightarrow> (\<And>x. quiet P (f x)) \<Longrightarrow> quiet P (case_option a f x)"
  by (cases x) simp_all

lemmas quiet_rules = quiet_ret quiet_throw quiet_await quiet_try_catch quiet_promise_all
  quiet_if quiet_case_prod quiet_case_option

lemma logs_ret: "logs (ret x)"
  unfolding logs_def ret_def by (rule exI[of _ "Inr x"], rule exI[of _ "[]"]) simp

lemma logs_throw: "logs (throw e)"
  unfolding logs_def throw_def by (rule exI[of _ "Inl e"], rule exI[of _ "[]"]) simp

lemma logs_invoke: "logs (invoke c outcome)"
  unfolding logs_def invoke_def by (rule exI[of _ outcome], rule exI[of _ "[c]"]) simp

lemma logs_await:
  assumes "logs m" and "\<And>x. logs (f x)"
  shows "logs (await m f)"
proof -
  from assms(1) obtain r cs where m: "\<And>w. m w = (r, w\<lparr>calls := calls w @ cs\<rparr>)"
    unfolding logs_def by blast
  show ?thesis
  proof (cases r)
    case (Inl e)
    with m have "\<forall>w. await m f w = (Inl e, w\<lparr>calls := calls w @ cs\<rparr>)"
      by (simp add: await_def)
    then show ?thesis unfolding logs_def by blast
  next
    case (Inr x)
    from assms(2) [of x] obtain r' cs'
      where f: "\<And>w. f x w = (r', w\<lparr>calls := calls w @ cs'\<rparr>)"
      unfolding logs_def by blast
    with m Inr have "\<forall>w. await m f w = (r', w\<lparr>calls := calls w @ (cs @ cs')\<rparr>)"
      by (simp add: await_def)
    then show ?thesis unfolding logs_def by blast
  qed
qed

lemma logs_try_catch:
  assumes "logs m" and "\<And>e. logs (h e)"
  shows "logs (try_catch m h)"
proof -
  from assms(1) obtain r cs where m: "\<And>w. m w = (r, w\<lparr>calls := calls w @ cs\<rparr>)"
    unfolding logs_def by blast
  show ?thesis
  proof (cases r)
    case (Inr x)
    with m have "\<forall>w. try_catch m h w = (Inr x, w\<lparr>calls := calls w @ cs\<rparr>)"
      by (simp add: try_catch_def)
    then show ?thesis unfolding logs_def by blast
  next
    case (Inl e)
    from assms(2) [of e] obtain r' cs'
      where h: "\<And>w. h e w = (r', w\<lparr>calls := calls w @ cs'\<rparr>)"
      unfolding logs_def by blast
    with m Inl have "\<forall>w. try_catch m h w = (r', w\<lparr>calls := calls w @ (cs @ cs')\<rparr>)"
      by (simp add: try_catch_def)
    then show ?thesis unfolding logs_def by blast
  qed
qed

lemma logs_if: "(c \<Longrightarrow> logs a) \<Longrightarrow> (\<not> c \<Longrightarrow> logs b) \<Longrightarrow> logs (if c then a else b)"
  by simp

lemma logs_case_option:
  "logs a \<Longrightarrow> (\<And>x. logs (f x)) \<Longrightarrow> logs (case_option a f x)"
  by (cases x) simp_all

lemmas logs_rules = logs_ret logs_throw logs_invoke logs_await logs_try_catch logs_if
  logs_case_option

lemma logs_tryBlock: "logs (tryBlock ctx ev p)"
  unfolding tryBlock_def submitToPrism_def persistAndSequence_def sequenceEvents_def
    createAndSendPrismTransaction_def Let_def
  by (intro logs_rules)

lemma tryBlock_fst: "fst (tryBlock ctx ev p w) = fst (tryBlock ctx ev p w')"
  using logs_tryBlock [of ctx ev p] unfolding logs_def by (metis fst_conv)

lemma tryBlock_stores: "actorStores (snd (tryBlock ctx ev p w)) = actorStores w"
  using logs_tryBlock [of ctx ev p] unfolding logs_def by (metis snd_conv world.select_convs(2) world.surjective world.update_convs(1))

lemma quiet_validateInputs:
  assumes "\<And>i. \<not> P (PlcCreateOp i)" "\<And>h. \<not> P (BaseNormalizeAndValidate h)"
    "\<And>x. \<not> P (AssureValidOp x)" "\<And>k x. \<not> P (AssureValidSig k x)"
    "\<And>d x. \<not> P (EnsureAtpDocument d x)" "\<And>k. \<not> P (GetReservedKeypair k)"
    "\<And>h d. \<not> P (NormalizeAndValidateHandle h d)" "\<And>c. \<not> P (EnsureInviteIsAvailable c)"
    "\<And>h. \<not> P (GetAccount h)" "\<And>e. \<not> P (GetAccountByEmail e)"
    "\<not> P Secp256k1KeypairCreate"
  shows "quiet P (validateInputs ctx ev inp requester)"
  unfolding validateInputs_def validateInputsForEntrywayPds_def validateInputsForLocalPds_def
    validateAtprotoData_def formatDidAndPlcOp_def createOp_def Let_def
  by (intro quiet_rules quiet_invoke assms)

subsection \<open>Reading the outcome of a run\<close>

lemma await_Inr_iff:
  "await m f w = (Inr y, w') \<longleftrightarrow> (\<exists>x w1. m w = (Inr x, w1) \<and> f x w1 = (Inr y, w'))"
  by (auto simp: await_def split: prod.splits sum.splits)

lemma invoke_eq: "invoke c outcome w = (r, w1) \<longleftrightarrow> outcome = r \<and> w1 = w\<lparr>calls := calls w @ [c]\<rparr>"
  by (auto simp: invoke_def)

lemma ret_eq: "ret x w = (r, w1) \<longleftrightarrow> r = Inr x \<and> w1 = w"
  by (auto simp: ret_def)

lemma throw_eq: "throw e w = (r, w1) \<longleftrightarrow> r = Inl e \<and> w1 = w"
  by (auto simp: throw_def)

lemma void_Inr: "void outcome = Inr u \<longleftrightarrow> outcome = None"
  by (simp add: void_def split: option.splits)

lemma try_catch_rethrow: "try_catch m (\<lambda>err. throw err) = m"
  by (rule ext) (simp add: try_catch_def throw_def split: prod.splits sum.splits)

lemma quiet_await_tail:
  assumes "\<And>x. quiet P (f x)"
  shows "filter P (calls (snd (await m f w))) = filter P (calls (snd (m w)))"
proof (cases "m w")
  case (Pair r w1)
  show ?thesis
  proof (cases r)
    case (Inl e)
    with Pair show ?thesis by (simp add: await_def)
  next
    case (Inr x)
    from assms [of x] have "filter P (calls (snd (f x w1))) = filter P (calls w1)"
      by (simp add: quiet_def)
    with Pair Inr show ?thesis by (simp add: await_def)
  qed
qed

subsection \<open>The wrapper around the PLC library and the rotation keys\<close>

lemma js_replace_prefix: "js_replace pat rep (pat @ rest) = rep @ rest"
proof (cases "pat @ rest")
  case Nil
  then show ?thesis by simp
next
  case (Cons a list)
  have "take (length pat) (pat @ rest) = pat" "drop (length pat) (pat @ rest) = rest"
    by simp_all
  then show ?thesis
    using Cons by (metis js_replace.simps(2))
qed

lemma formatRotationKeys_eq:
  "formatRotationKeys ctx inp =
     supplied (in_recoveryKey inp) @ supplied (cfg_identity_recoveryDidKey ctx)
       @ [keypair_did (plcRotationKey ctx)]"
  by (simp add: formatRotationKeys_def supplied_def)

lemma createOp_run:
  "createOp ev inp w =
     (case plc_createOp ev inp of
        Inl e \<Rightarrow> (Inl e, w\<lparr>calls := calls w @ [PlcCreateOp inp]\<rparr>)
      | Inr r \<Rightarrow> (Inr (r\<lparr>res_did := js_replace ''did:plc:'' ''did:prism:'' (res_did r)\<rparr>),
                  w\<lparr>calls := calls w @ [PlcCreateOp inp]\<rparr>))"
  by (simp add: createOp_def run_defs split: sum.splits)

subsection \<open>The submitter\<close>

lemma createAndSend_run:
  "createAndSendPrismTransaction ev did plcOp k w =
     (case plc_addSignature ev (unsignedTransaction did plcOp k) k of
        Inl e \<Rightarrow> (Inl e, w\<lparr>calls := calls w @ [AddSignature (unsignedTransaction did plcOp k) k]\<rparr>)
      | Inr s \<Rightarrow>
          (case axios_post ev prism_url (transaction (unsignedTransaction did plcOp k) s) of
             None \<Rightarrow>
               (Inr (), w\<lparr>calls := calls w @
                    [AddSignature (unsignedTransaction did plcOp k) k,
                     AxiosPost prism_url (transaction (unsignedTransaction did plcOp k) s),
                     SetTimeout 10000]\<rparr>)
           | Some err \<Rightarrow>
               (Inl (Error ''Failed to send transaction to Prism server :-( ORBSTACK??''),
                w\<lparr>calls := calls w @
                    [AddSignature (unsignedTransaction did plcOp k) k,
                     AxiosPost prism_url (transaction (unsignedTransaction did plcOp k) s)]\<rparr>)))"
  by (auto simp: createAndSendPrismTransaction_def run_defs split: sum.splits option.splits)

lemma submitToPrism_run:
  "submitToPrism ctx ev p w =
     (case plan_plcOp p of
        None \<Rightarrow> (Inr (), w)
      | Some plcOp \<Rightarrow>
          createAndSendPrismTransaction ev (plan_did p) plcOp (plcRotationKey ctx) w)"
  by (simp add: submitToPrism_def try_catch_rethrow ret_def split: option.splits)

lemma quiet_submitToPrism:
  assumes "\<And>u k. \<not> P (AddSignature u k)" "\<And>u t. \<not> P (AxiosPost u t)"
    "\<not> P (SetTimeout 10000)"
  shows "quiet P (submitToPrism ctx ev p)"
  unfolding submitToPrism_def createAndSendPrismTransaction_def
  by (intro quiet_rules quiet_invoke assms)

subsection \<open>The body of the handler\<close>

lemma sequenceEvents_ok:
  "sequenceEvents ev did handle commit w = (Inr u, w') \<Longrightarrow>
   w' = w\<lparr>calls := calls w @ [SequenceIdentityEvt did handle, SequenceAccountEvt did Active,
         SequenceCommit did commit, SequenceSyncEvt did (syncEvtDataFromCommit ev commit)]\<rparr>"
  by (auto simp: sequenceEvents_def await_Inr_iff invoke_eq)

lemma persistAndSequence_ok:
  assumes "persistAndSequence ev p c w = (Inr r, w')"
  shows "calls w' = calls w @
     [SafeResolveDidDoc (plan_did p) True, CreateAccountAndSession (accountFields p c)]
     @ (if plan_deactivated p then []
        else [SequenceIdentityEvt (plan_did p) (plan_handle p),
              SequenceAccountEvt (plan_did p) Active,
              SequenceCommit (plan_did p) c,
              SequenceSyncEvt (plan_did p) (syncEvtDataFromCommit ev c)])
     @ [UpdateRepoRoot (plan_did p) (cid c) (rev c),
        ClearReservedKeypair (keypair_did (plan_signingKey p)) (plan_did p)]"
  using assms
  by (auto simp: persistAndSequence_def Let_def await_Inr_iff invoke_eq ret_eq
      dest!: sequenceEvents_ok split: if_splits)

lemma quiet_persistAndSequence:
  assumes "\<And>d b. \<not> P (SafeResolveDidDoc d b)" "\<And>f. \<not> P (CreateAccountAndSession f)"
    "\<And>d a b. \<not> P (UpdateRepoRoot d a b)" "\<And>k d. \<not> P (ClearReservedKeypair k d)"
    "\<And>d h. \<not> plan_deactivated p \<Longrightarrow> \<not> P (SequenceIdentityEvt d h)"
    "\<And>d s. \<not> plan_deactivated p \<Longrightarrow> \<not> P (SequenceAccountEvt d s)"
    "\<And>d x. \<not> plan_deactivated p \<Longrightarrow> \<not> P (SequenceCommit d x)"
    "\<And>d s. \<not> plan_deactivated p \<Longrightarrow> \<not> P (SequenceSyncEvt d s)"
  shows "quiet P (persistAndSequence ev p c)"
  unfolding persistAndSequence_def sequenceEvents_def Let_def
  by (intro quiet_rules quiet_invoke assms) simp_all

lemma tryBlock_ok:
  assumes "tryBlock ctx ev p w = (Inr r, w')"
  shows "\<exists>c w2. actorStore_createRepo ev (plan_did p) = Inr c
     \<and> submitToPrism ctx ev p (w\<lparr>calls := calls w @ [CreateRepo (plan_did p)]\<rparr>) = (Inr (), w2)
     \<and> persistAndSequence ev p c w2 = (Inr r, w')"
  using assms by (auto simp: tryBlock_def await_Inr_iff invoke_eq)

lemma tryBlock_posts:
  "filter is_post (calls (snd (tryBlock ctx ev p w))) =
     filter is_post (calls w) @
     (case actorStore_createRepo ev (plan_did p) of
        Inl e \<Rightarrow> []
      | Inr c \<Rightarrow>
          (case plan_plcOp p of
             None \<Rightarrow> []
           | Some plcOp \<Rightarrow>
               (case plc_addSignature ev
                       (unsignedTransaction (plan_did p) plcOp (plcRotationKey ctx))
                       (plcRotationKey ctx) of
                  Inl e \<Rightarrow> []
                | Inr s \<Rightarrow>
                    [AxiosPost prism_url
                       (transaction
                          (unsignedTransaction (plan_did p) plcOp (plcRotationKey ctx)) s)])))"
proof (cases "actorStore_createRepo ev (plan_did p)")
  case (Inl e)
  then show ?thesis by (simp add: tryBlock_def await_def invoke_def)
next
  case (Inr c)
  have rest: "quiet is_post (persistAndSequence ev p c)"
    by (rule quiet_persistAndSequence) simp_all
  have "tryBlock ctx ev p w =
      await (submitToPrism ctx ev p) (\<lambda>_. persistAndSequence ev p c)
        (w\<lparr>calls := calls w @ [CreateRepo (plan_did p)]\<rparr>)"
    using Inr by (simp add: tryBlock_def await_def invoke_def)
  then have "filter is_post (calls (snd (tryBlock ctx ev p w))) =
      filter is_post (calls (snd (submitToPrism ctx ev p
        (w\<lparr>calls := calls w @ [CreateRepo (plan_did p)]\<rparr>))))"
    using rest by (simp add: quiet_await_tail)
  then show ?thesis
    using Inr by (simp add: submitToPrism_run createAndSend_run split: option.splits sum.splits)
qed

lemma provision_run:
  "provision ctx ev p w =
     (case actorStore_create ev (plan_did p) (plan_signingKey p) of
        Some e \<Rightarrow>
          (Inl e, w\<lparr>calls := calls w @ [ActorStoreCreate (plan_did p) (plan_signingKey p)]\<rparr>)
      | None \<Rightarrow>
          (case tryBlock ctx ev p
                  (w\<lparr>calls := calls w @ [ActorStoreCreate (plan_did p) (plan_signingKey p)],
                     actorStores := insert (plan_did p) (actorStores w)\<rparr>) of
             (Inr r, w2) \<Rightarrow>
               (Inr \<lparr>out_handle = plan_handle p, out_did = plan_did p, out_didDoc = fst r,
                     out_accessJwt = accessJwt (snd r), out_refreshJwt = refreshJwt (snd r)\<rparr>,
                w2)
           | (Inl e, w2) \<Rightarrow>
               (case actorStore_destroy ev (plan_did p) of
                  None \<Rightarrow>
                    (Inl e, w2\<lparr>calls := calls w2 @ [ActorStoreDestroy (plan_did p)],
                                actorStores := actorStores w2 - {plan_did p}\<rparr>)
                | Some e2 \<Rightarrow>
                    (Inl e2, w2\<lparr>calls := calls w2 @ [ActorStoreDestroy (plan_did p)]\<rparr>))))"
  by (simp add: provision_def catchBlock_def actorStore_create_call_def
      actorStore_destroy_call_def run_defs split: option.splits sum.splits prod.splits)

lemma provision_ok:
  assumes "provision ctx ev p w = (Inr r, w')"
  shows "\<exists>r0. tryBlock ctx ev p
      (w\<lparr>calls := calls w @ [ActorStoreCreate (plan_did p) (plan_signingKey p)],
         actorStores := insert (plan_did p) (actorStores w)\<rparr>) = (Inr r0, w')"
  using assms by (auto simp: provision_run split: option.splits sum.splits prod.splits)

lemma provision_posts:
  "filter is_post (calls (snd (provision ctx ev p w))) =
     filter is_post (calls w) @
     (if actorStore_create ev (plan_did p) (plan_signingKey p) = None then
        filter is_post (calls (snd (tryBlock ctx ev p world0)))
      else [])"
proof (cases "actorStore_create ev (plan_did p) (plan_signingKey p)")
  case (Some e)
  then show ?thesis by (simp add: provision_run)
next
  case None
  let ?w1 = "w\<lparr>calls := calls w @ [ActorStoreCreate (plan_did p) (plan_signingKey p)],
                actorStores := insert (plan_did p) (actorStores w)\<rparr>"
  have "filter is_post (calls (snd (provision ctx ev p w))) =
      filter is_post (calls (snd (tryBlock ctx ev p ?w1)))"
    using None by (simp add: provision_run split: prod.splits sum.splits option.splits)
  then show ?thesis using None by (simp add: tryBlock_posts world0_def)
qed

lemma handler_run:
  "handler ctx ev inp requester w =
     (case validateInputs ctx ev inp requester w of
        (Inl e, w1) \<Rightarrow> (Inl e, w1)
      | (Inr p, w1) \<Rightarrow> provision ctx ev p w1)"
  by (simp add: handler_def await_def)

lemma promise_all_Inr_iff:
  "promise_all f m1 m2 w = (Inr (a, b), w') \<longleftrightarrow>
     (\<exists>w1. m1 w = (Inr a, w1) \<and> m2 w1 = (Inr b, w'))"
  by (auto simp: promise_all_def split: prod.splits sum.splits)

lemma local_supplied_plan:
  assumes "validateInputsForLocalPds ctx ev inp requester w = (Inr p, w')"
    and "truthy (in_did inp)"
  shows "in_did inp = requester \<and> plan_did p = the (in_did inp) \<and> plan_plcOp p = None
     \<and> plan_deactivated p"
  using assms
  by (auto simp: validateInputsForLocalPds_def Let_def await_Inr_iff throw_eq ret_eq
      split: if_splits prod.splits)

lemma quietD: "quiet P m \<Longrightarrow> m w = (r, w') \<Longrightarrow> filter P (calls w') = filter P (calls w)"
  by (metis quiet_def snd_conv)

lemma formatDidAndPlcOp_ok:
  assumes "formatDidAndPlcOp ctx ev handle inp signingKey w = (Inr (d, x), w')"
  shows "\<exists>i r. plc_createOp ev i = Inr r
     \<and> d = js_replace ''did:plc:'' ''did:prism:'' (res_did r) \<and> x = Some (res_op r)"
  using assms
  by (auto simp: formatDidAndPlcOp_def createOp_run await_Inr_iff ret_eq split: sum.splits)

lemma local_minted_plan:
  assumes "validateInputsForLocalPds ctx ev inp requester w = (Inr p, w')"
    and "\<not> truthy (in_did inp)"
  shows "\<exists>i r. plc_createOp ev i = Inr r
     \<and> plan_did p = js_replace ''did:plc:'' ''did:prism:'' (res_did r)
     \<and> plan_plcOp p = Some (res_op r) \<and> \<not> plan_deactivated p"
proof -
  from assms obtain handle signingKey d x w1 w2 where
    f: "formatDidAndPlcOp ctx ev handle inp signingKey w1 = (Inr (d, x), w2)"
    and p: "plan_did p = d" "plan_plcOp p = x" "\<not> plan_deactivated p"
    by (auto simp: validateInputsForLocalPds_def Let_def await_Inr_iff throw_eq ret_eq
        split: if_splits prod.splits)
  from formatDidAndPlcOp_ok [OF f] p show ?thesis by auto
qed

lemma local_checks_reach_branch:
  assumes "passesLocalChecks ctx ev inp" and "truthy (in_did inp)"
  shows "fst (validateInputsForLocalPds ctx ev inp requester w) =
     (if in_did inp \<noteq> requester
      then Inl (AuthRequiredError
                  (''Missing auth to create account with did: '' @ the (in_did inp)))
      else Inr \<lparr>plan_did = the (in_did inp),
                plan_handle = projr (normalizeAndValidateHandle ev (in_handle inp) (in_did inp)),
                plan_email = in_email inp, plan_password = in_password inp,
                plan_inviteCode = in_inviteCode inp, plan_signingKey = secp256k1_create ev,
                plan_plcOp = None, plan_deactivated = True\<rparr>)"
proof -
  from assms(1) obtain handle where
    f: "in_plcOp inp = None"
      "\<not> (truthy (in_password inp)
            \<and> length (the (in_password inp)) > new_password_max_length ev)"
      "\<not> (cfg_invites_required ctx \<and> \<not> truthy (in_inviteCode inp))"
      "truthy (in_email inp)" "isEmailValid ev (the (in_email inp))"
      "\<not> isDisposableEmail ev (the (in_email inp))"
      "normalizeAndValidateHandle ev (in_handle inp) (in_did inp) = Inr handle"
      "getAccount ev handle = Inr False"
      "getAccountByEmail ev (the (in_email inp)) = Inr False"
    and inv: "cfg_invites_required ctx \<and> truthy (in_inviteCode inp)
        \<longrightarrow> ensureInviteIsAvailable ev (the (in_inviteCode inp)) = None"
    unfolding passesLocalChecks_def by (auto split: sum.splits)
  show ?thesis
  proof (cases "in_did inp = requester")
    case True
    then have rq: "requester = in_did inp" by simp
    show ?thesis
      unfolding rq using f inv assms(2)
      by (simp add: validateInputsForLocalPds_def Let_def run_defs promise_all_def)
  next
    case False
    with f inv assms(2) show ?thesis
      by (simp add: validateInputsForLocalPds_def Let_def run_defs promise_all_def)
  qed
qed

lemma quiet_create:
  "\<not> P (ActorStoreCreate d k) \<Longrightarrow> quiet P (actorStore_create_call ev d k)"
  by (simp add: quiet_def actorStore_create_call_def split: option.splits)

lemma quiet_destroy: "\<not> P (ActorStoreDestroy d) \<Longrightarrow> quiet P (actorStore_destroy_call ev d)"
  by (simp add: quiet_def actorStore_destroy_call_def split: option.splits)

lemma quiet_provision:
  assumes "\<And>d k. \<not> P (ActorStoreCreate d k)" "\<And>d. \<not> P (ActorStoreDestroy d)"
    "\<And>d. \<not> P (CreateRepo d)"
    "\<And>u k. \<not> P (AddSignature u k)" "\<And>u t. \<not> P (AxiosPost u t)"
    "\<not> P (SetTimeout 10000)"
    "\<And>d b. \<not> P (SafeResolveDidDoc d b)" "\<And>f. \<not> P (CreateAccountAndSession f)"
    "\<And>d a b. \<not> P (UpdateRepoRoot d a b)" "\<And>k d. \<not> P (ClearReservedKeypair k d)"
    "\<And>d h. \<not> plan_deactivated p \<Longrightarrow> \<not> P (SequenceIdentityEvt d h)"
    "\<And>d s. \<not> plan_deactivated p \<Longrightarrow> \<not> P (SequenceAccountEvt d s)"
    "\<And>d x. \<not> plan_deactivated p \<Longrightarrow> \<not> P (SequenceCommit d x)"
    "\<And>d s. \<not> plan_deactivated p \<Longrightarrow> \<not> P (SequenceSyncEvt d s)"
  shows "quiet P (provision ctx ev p)"
  unfolding provision_def tryBlock_def catchBlock_def
  by (intro quiet_rules quiet_invoke quiet_create quiet_destroy quiet_submitToPrism
      quiet_persistAndSequence assms)

section \<open>Properties of the pipeline\<close>

text \<open>The definitions that the evaluation of a concrete run unfolds.\<close>

lemmas eval_defs = handler_def validateInputs_def validateInputsForLocalPds_def
  validateInputsForEntrywayPds_def validateAtprotoData_def provision_def tryBlock_def
  submitToPrism_def persistAndSequence_def accountFields_def catchBlock_def
  formatDidAndPlcOp_def createOp_def formatRotationKeys_def createAndSendPrismTransaction_def
  unsignedTransaction_def transaction_def prism_url_def sequenceEvents_def
  actorStore_create_call_def actorStore_destroy_call_def promise_all_def truthy_def
  supplied_def passesLocalChecks_def run_defs Let_def
  demo_env_def demo_env_post_rejected_def demo_ctx_def demo_entryway_ctx_def demo_input_def demo_op_def
  demo_commit_def demo_plan_def world0_def

subsection \<open>Rollback after a failed step\<close>

text \<open>
  Claim C1, as amended. Take a request whose validation yields the plan \<open>p\<close>, for which
  the actor store and the repository are created, and in which a later step of the
  \<^verbatim>\<open>try\<close> body (ledger submission, DID-document resolution, account persistence, event
  sequencing, repo-root update or reserved-key release) throws \<open>e\<close>. Then the last call
  the handler makes is \<^verbatim>\<open>actorStore.destroy\<close> for the plan's DID; and when that call
  returns, the handler throws \<open>e\<close> and no actor store for the DID is left. The outcome of
  the \<^verbatim>\<open>try\<close> body does not depend on the world, so it is read off at \<open>world0\<close>.
\<close>

theorem rollback_destroys_repository:
  assumes plan: "fst (validateInputs ctx ev inp requester w) = Inr p"
    and store: "actorStore_create ev (plan_did p) (plan_signingKey p) = None"
    and repo: "actorStore_createRepo ev (plan_did p) = Inr c"
    and failed: "fst (tryBlock ctx ev p world0) = Inl e"
  shows "last (calls (snd (handler ctx ev inp requester w))) = ActorStoreDestroy (plan_did p)
     \<and> (actorStore_destroy ev (plan_did p) = None \<longrightarrow>
          fst (handler ctx ev inp requester w) = Inl e
          \<and> plan_did p \<notin> actorStores (snd (handler ctx ev inp requester w)))"
proof -
  from plan obtain w1 where v: "validateInputs ctx ev inp requester w = (Inr p, w1)"
    by (metis prod.collapse)
  let ?w1 = "w1\<lparr>calls := calls w1 @ [ActorStoreCreate (plan_did p) (plan_signingKey p)],
                 actorStores := insert (plan_did p) (actorStores w1)\<rparr>"
  obtain r2 w2 where t: "tryBlock ctx ev p ?w1 = (r2, w2)"
    by (cases "tryBlock ctx ev p ?w1")
  with failed have "r2 = Inl e"
    using tryBlock_fst [of ctx ev p ?w1 world0] by simp
  with t v store show ?thesis
    by (simp add: handler_run provision_run split: option.splits)
qed

text \<open>The statement above at the sample deployment.\<close>

theorem rollback_destroys_repository_witness:
  "fst (validateInputs demo_ctx demo_env_post_rejected
          demo_input None world0) = Inr demo_plan
   \<and> actorStore_create demo_env_post_rejected
        (plan_did demo_plan) (plan_signingKey demo_plan) = None
   \<and> actorStore_createRepo demo_env_post_rejected
        (plan_did demo_plan) = Inr demo_commit
   \<and> fst (tryBlock demo_ctx demo_env_post_rejected demo_plan world0)
       = Inl (Error ''Failed to send transaction to Prism server :-( ORBSTACK??'')
   \<and> last (calls (snd (handler demo_ctx demo_env_post_rejected
          demo_input None world0))) = ActorStoreDestroy ''did:prism:ewvi7nxzyoun6zhx''
   \<and> fst (handler demo_ctx demo_env_post_rejected
          demo_input None world0)
       = Inl (Error ''Failed to send transaction to Prism server :-( ORBSTACK??'')
   \<and> ''did:prism:ewvi7nxzyoun6zhx'' \<notin> actorStores (snd (handler demo_ctx
          demo_env_post_rejected demo_input None world0))
   \<and> fst (tryBlock demo_ctx
          (demo_env\<lparr>actorStore_clearReservedKeypair := (\<lambda>k d. Some (Error ''key store down''))\<rparr>)
          demo_plan world0) = Inl (Error ''key store down'')
   \<and> fst (handler demo_ctx
          (demo_env\<lparr>actorStore_clearReservedKeypair := (\<lambda>k d. Some (Error ''key store down''))\<rparr>)
          demo_input None world0) = Inl (Error ''key store down'')
   \<and> ''did:prism:ewvi7nxzyoun6zhx'' \<notin> actorStores (snd (handler demo_ctx
          (demo_env\<lparr>actorStore_clearReservedKeypair := (\<lambda>k d. Some (Error ''key store down''))\<rparr>)
          demo_input None world0))"
proof -
  let ?ev = "demo_env_post_rejected"
  let ?ev' = "demo_env\<lparr>actorStore_clearReservedKeypair :=
                (\<lambda>k d. Some (Error ''key store down''))\<rparr>"
  have h1: "fst (validateInputs demo_ctx ?ev demo_input None world0) = Inr demo_plan"
    by (simp add: eval_defs)
  have h2: "actorStore_create ?ev (plan_did demo_plan) (plan_signingKey demo_plan) = None"
    by (simp add: demo_env_def demo_env_post_rejected_def)
  have h3: "actorStore_createRepo ?ev (plan_did demo_plan) = Inr demo_commit"
    by (simp add: demo_env_def demo_env_post_rejected_def)
  have h4: "fst (tryBlock demo_ctx ?ev demo_plan world0)
       = Inl (Error ''Failed to send transaction to Prism server :-( ORBSTACK??'')"
    by (simp add: eval_defs)
  have h5: "actorStore_destroy ?ev (plan_did demo_plan) = None"
    by (simp add: demo_env_def demo_env_post_rejected_def)
  have h6: "plan_did demo_plan = ''did:prism:ewvi7nxzyoun6zhx''"
    by (simp add: demo_plan_def)
  have k1: "fst (validateInputs demo_ctx ?ev' demo_input None world0) = Inr demo_plan"
    by (simp add: eval_defs)
  have k2: "actorStore_create ?ev' (plan_did demo_plan) (plan_signingKey demo_plan) = None"
    by (simp add: demo_env_def demo_env_post_rejected_def)
  have k3: "actorStore_createRepo ?ev' (plan_did demo_plan) = Inr demo_commit"
    by (simp add: demo_env_def demo_env_post_rejected_def)
  have k4: "fst (tryBlock demo_ctx ?ev' demo_plan world0) = Inl (Error ''key store down'')"
    by (simp add: eval_defs)
  have k5: "actorStore_destroy ?ev' (plan_did demo_plan) = None"
    by (simp add: demo_env_def demo_env_post_rejected_def)
  from rollback_destroys_repository [OF h1 h2 h3 h4]
    rollback_destroys_repository [OF k1 k2 k3 k4] h1 h2 h3 h4 h5 h6 k4 k5
  show ?thesis
    by simp
qed

text \<open>
  Claim C1 as stated fails when the destroy itself throws: the post to the ledger is
  rejected (status 500), the destroy throws \<^verbatim>\<open>EBUSY\<close>; the handler then throws
  \<^verbatim>\<open>EBUSY\<close>, not the submission error, and the actor store of the DID is still there.
\<close>

theorem rollback_counterexample:
  "actorStore_createRepo
     (demo_env_post_rejected\<lparr>actorStore_destroy := (\<lambda>d. Some (Error ''EBUSY''))\<rparr>)
     ''did:prism:ewvi7nxzyoun6zhx'' = Inr demo_commit
   \<and> fst (tryBlock demo_ctx
          (demo_env_post_rejected\<lparr>actorStore_destroy := (\<lambda>d. Some (Error ''EBUSY''))\<rparr>)
          demo_plan world0)
       = Inl (Error ''Failed to send transaction to Prism server :-( ORBSTACK??'')
   \<and> fst (handler demo_ctx
          (demo_env_post_rejected\<lparr>actorStore_destroy := (\<lambda>d. Some (Error ''EBUSY''))\<rparr>)
          demo_input None world0) = Inl (Error ''EBUSY'')
   \<and> ''did:prism:ewvi7nxzyoun6zhx'' \<in> actorStores (snd (handler demo_ctx
          (demo_env_post_rejected\<lparr>actorStore_destroy := (\<lambda>d. Some (Error ''EBUSY''))\<rparr>)
          demo_input None world0))"
  by (simp add: eval_defs)

subsection \<open>A failing rollback\<close>

text \<open>
  Claim C2, as amended. When a step of the \<^verbatim>\<open>try\<close> body throws \<open>e\<close> and the
  compensating \<^verbatim>\<open>actorStore.destroy\<close> throws \<open>e2\<close>, the handler throws \<open>e2\<close>: line 154
  is not guarded, so the destroy failure replaces the original error.
\<close>

theorem destroy_failure_replaces_error:
  assumes plan: "fst (validateInputs ctx ev inp requester w) = Inr p"
    and store: "actorStore_create ev (plan_did p) (plan_signingKey p) = None"
    and failed: "fst (tryBlock ctx ev p world0) = Inl e"
    and destroy: "actorStore_destroy ev (plan_did p) = Some e2"
  shows "fst (handler ctx ev inp requester w) = Inl e2"
proof -
  from plan obtain w1 where v: "validateInputs ctx ev inp requester w = (Inr p, w1)"
    by (metis prod.collapse)
  let ?w1 = "w1\<lparr>calls := calls w1 @ [ActorStoreCreate (plan_did p) (plan_signingKey p)],
                 actorStores := insert (plan_did p) (actorStores w1)\<rparr>"
  obtain r2 w2 where t: "tryBlock ctx ev p ?w1 = (r2, w2)"
    by (cases "tryBlock ctx ev p ?w1")
  with failed have "r2 = Inl e"
    using tryBlock_fst [of ctx ev p ?w1 world0] by simp
  with t v store destroy show ?thesis
    by (simp add: handler_run provision_run)
qed

text \<open>The statement above at the sample deployment.\<close>

theorem destroy_failure_replaces_error_witness:
  "fst (validateInputs demo_ctx
          (demo_env\<lparr>safeResolveDidDoc := (\<lambda>d f. Inl (Error ''resolver unreachable'')),
                     actorStore_destroy := (\<lambda>d. Some (Error ''EBUSY''))\<rparr>)
          demo_input None world0) = Inr demo_plan
   \<and> fst (tryBlock demo_ctx
          (demo_env\<lparr>safeResolveDidDoc := (\<lambda>d f. Inl (Error ''resolver unreachable'')),
                     actorStore_destroy := (\<lambda>d. Some (Error ''EBUSY''))\<rparr>)
          demo_plan world0) = Inl (Error ''resolver unreachable'')
   \<and> fst (handler demo_ctx
          (demo_env\<lparr>safeResolveDidDoc := (\<lambda>d f. Inl (Error ''resolver unreachable'')),
                     actorStore_destroy := (\<lambda>d. Some (Error ''EBUSY''))\<rparr>)
          demo_input None world0) = Inl (Error ''EBUSY'')"
proof -
  let ?ev = "demo_env\<lparr>safeResolveDidDoc := (\<lambda>d f. Inl (Error ''resolver unreachable'')),
                     actorStore_destroy := (\<lambda>d. Some (Error ''EBUSY''))\<rparr>"
  have h1: "fst (validateInputs demo_ctx ?ev demo_input None world0) = Inr demo_plan"
    by (simp add: eval_defs)
  have h2: "actorStore_create ?ev (plan_did demo_plan) (plan_signingKey demo_plan) = None"
    by (simp add: demo_env_def demo_env_post_rejected_def)
  have h3: "fst (tryBlock demo_ctx ?ev demo_plan world0) = Inl (Error ''resolver unreachable'')"
    by (simp add: eval_defs)
  have h4: "actorStore_destroy ?ev (plan_did demo_plan) = Some (Error ''EBUSY'')"
    by (simp add: demo_env_def demo_env_post_rejected_def)
  from destroy_failure_replaces_error [OF h1 h2 h3 h4] h1 h3 show ?thesis
    by simp
qed

text \<open>
  Claim C2 as stated fails: the account store throws \<^verbatim>\<open>database is locked\<close>, the destroy
  throws \<^verbatim>\<open>EBUSY\<close>, and the caller receives \<^verbatim>\<open>EBUSY\<close>.
\<close>

theorem destroy_failure_counterexample:
  "fst (tryBlock demo_ctx
          (demo_env\<lparr>createAccountAndSession := (\<lambda>f. Inl (Error ''database is locked'')),
                     actorStore_destroy := (\<lambda>d. Some (Error ''EBUSY''))\<rparr>)
          (demo_plan\<lparr>plan_did := ''did:web:alice.example'', plan_plcOp := None,
                      plan_deactivated := True\<rparr>) world0)
       = Inl (Error ''database is locked'')
   \<and> fst (handler demo_ctx
          (demo_env\<lparr>createAccountAndSession := (\<lambda>f. Inl (Error ''database is locked'')),
                     actorStore_destroy := (\<lambda>d. Some (Error ''EBUSY''))\<rparr>)
          (demo_input\<lparr>in_did := Some ''did:web:alice.example''\<rparr>)
          (Some ''did:web:alice.example'') world0) = Inl (Error ''EBUSY'')
   \<and> Error ''EBUSY'' \<noteq> Error ''database is locked''"
  by (simp add: eval_defs)

subsection \<open>The rotation key check of the entryway path\<close>

text \<open>
  Claim C3, as amended. For an entryway request whose handle normalises and which supplies
  both a DID and an operation: when no entryway rotation key is configured, or the
  operation's \<^verbatim>\<open>rotationKeys\<close> do not include it, validation throws an
  \<^verbatim>\<open>InvalidRequestError\<close> named \<^verbatim>\<open>IncompatibleDidDoc\<close>. No call to \<^verbatim>\<open>assureValidOp\<close> or
  \<^verbatim>\<open>assureValidSig\<close> has been made by then (the only call is the handle normalisation),
  and the outcome is the same whatever those two verifiers would answer.
\<close>

theorem entryway_rotation_key_checked_first:
  assumes handle: "baseNormalizeAndValidate ev (in_handle inp) = Inr handle"
    and did: "truthy (in_did inp)"
    and op: "in_plcOp inp = Some plcOp"
    and key: "\<not> truthy (cfg_entryway_plcRotationKey ctx)
              \<or> the (cfg_entryway_plcRotationKey ctx) \<notin> set (rotationKeys plcOp)"
  shows "(\<exists>msg. validateInputsForEntrywayPds ctx ev inp w =
            (Inl (InvalidRequestError msg (Some ''IncompatibleDidDoc'')),
             w\<lparr>calls := calls w @ [BaseNormalizeAndValidate (in_handle inp)]\<rparr>))
     \<and> validateInputsForEntrywayPds ctx
          (ev\<lparr>plc_assureValidOp := validOp, plc_assureValidSig := validSig\<rparr>) inp w
        = validateInputsForEntrywayPds ctx ev inp w"
  using assms
  by (auto simp: validateInputsForEntrywayPds_def Let_def await_def invoke_def throw_def)

text \<open>The statement above at the sample deployment.\<close>

theorem entryway_rotation_key_checked_first_witness:
  "baseNormalizeAndValidate demo_env
     (in_handle (demo_input\<lparr>in_did := Some ''did:plc:bob'',
        in_plcOp := Some (demo_op\<lparr>rotationKeys := [''did:key:zUser'']\<rparr>)\<rparr>))
     = Inr ''alice.example''
   \<and> the (cfg_entryway_plcRotationKey demo_entryway_ctx)
        \<notin> set (rotationKeys (demo_op\<lparr>rotationKeys := [''did:key:zUser'']\<rparr>))
   \<and> validateInputsForEntrywayPds demo_entryway_ctx demo_env
        (demo_input\<lparr>in_did := Some ''did:plc:bob'',
           in_plcOp := Some (demo_op\<lparr>rotationKeys := [''did:key:zUser'']\<rparr>)\<rparr>) world0
       = (Inl (InvalidRequestError ''PLC DID does not include service rotation key''
                 (Some ''IncompatibleDidDoc'')),
          \<lparr>calls = [BaseNormalizeAndValidate ''alice.example''], actorStores = {}\<rparr>)
   \<and> validateInputsForEntrywayPds demo_entryway_ctx
        (demo_env\<lparr>plc_assureValidOp := (\<lambda>x. Some (Error ''malformed'')),
                   plc_assureValidSig := (\<lambda>k x. Some (Error ''bad signature''))\<rparr>)
        (demo_input\<lparr>in_did := Some ''did:plc:bob'',
           in_plcOp := Some (demo_op\<lparr>rotationKeys := [''did:key:zUser'']\<rparr>)\<rparr>) world0
       = validateInputsForEntrywayPds demo_entryway_ctx demo_env
        (demo_input\<lparr>in_did := Some ''did:plc:bob'',
           in_plcOp := Some (demo_op\<lparr>rotationKeys := [''did:key:zUser'']\<rparr>)\<rparr>) world0"
proof -
  let ?inp = "demo_input\<lparr>in_did := Some ''did:plc:bob'',
        in_plcOp := Some (demo_op\<lparr>rotationKeys := [''did:key:zUser'']\<rparr>)\<rparr>"
  have h1: "baseNormalizeAndValidate demo_env (in_handle ?inp) = Inr ''alice.example''"
    by (simp add: demo_env_def demo_input_def)
  have h2: "truthy (in_did ?inp)"
    by (simp add: truthy_def)
  have h3: "in_plcOp ?inp = Some (demo_op\<lparr>rotationKeys := [''did:key:zUser'']\<rparr>)"
    by simp
  have k: "the (cfg_entryway_plcRotationKey demo_entryway_ctx)
        \<notin> set (rotationKeys (demo_op\<lparr>rotationKeys := [''did:key:zUser'']\<rparr>))"
    by (simp add: demo_entryway_ctx_def)
  then have h4: "\<not> truthy (cfg_entryway_plcRotationKey demo_entryway_ctx)
      \<or> the (cfg_entryway_plcRotationKey demo_entryway_ctx)
        \<notin> set (rotationKeys (demo_op\<lparr>rotationKeys := [''did:key:zUser'']\<rparr>))"
    by (rule disjI2)
  have v: "validateInputsForEntrywayPds demo_entryway_ctx demo_env ?inp world0
       = (Inl (InvalidRequestError ''PLC DID does not include service rotation key''
                 (Some ''IncompatibleDidDoc'')),
          \<lparr>calls = [BaseNormalizeAndValidate ''alice.example''], actorStores = {}\<rparr>)"
    by (simp add: eval_defs)
  from entryway_rotation_key_checked_first [OF h1 h2 h3 h4, where w = world0
      and validOp = "\<lambda>x. Some (Error ''malformed'')"
      and validSig = "\<lambda>k x. Some (Error ''bad signature'')"] h1 k v
  show ?thesis by simp
qed

text \<open>
  Claim C3 as stated fails for a request that supplies the operation but no DID: line 178
  throws an \<^verbatim>\<open>InvalidRequestError\<close> without the name \<^verbatim>\<open>IncompatibleDidDoc\<close>, although the
  operation's rotation keys exclude the configured key.
\<close>

theorem entryway_missing_did_counterexample:
  "entrywayAgent demo_entryway_ctx
   \<and> cfg_entryway_plcRotationKey demo_entryway_ctx = Some ''did:key:zEntryway''
   \<and> ''did:key:zEntryway'' \<notin> set (rotationKeys (demo_op\<lparr>rotationKeys := [''did:key:zUser'']\<rparr>))
   \<and> in_did demo_input = None
   \<and> fst (handler demo_entryway_ctx demo_env
            (demo_input\<lparr>in_plcOp := Some (demo_op\<lparr>rotationKeys := [''did:key:zUser'']\<rparr>)\<rparr>)
            None world0)
       = Inl (InvalidRequestError ''non-entryway pds requires bringing a DID and plcOp'' None)"
  by (simp add: eval_defs)

subsection \<open>The order of the sequencer calls\<close>

text \<open>
  Claim C4. When the handler succeeds, the sequencer calls it has added are, for a plan
  that is not deactivated, exactly \<^verbatim>\<open>sequenceIdentityEvt\<close>, \<^verbatim>\<open>sequenceAccountEvt\<close> with
  \<^verbatim>\<open>Active\<close>, \<^verbatim>\<open>sequenceCommit\<close> and \<^verbatim>\<open>sequenceSyncEvt\<close>, in this order, for the
  plan's DID and the commit of the repository creation; for a deactivated plan there are
  none. A deactivated plan adds no sequencer call in a failing run either.
\<close>

theorem sequencing_order:
  "(fst (handler ctx ev inp requester w) = Inr r \<longrightarrow>
      (\<exists>p c. fst (validateInputs ctx ev inp requester w) = Inr p
         \<and> actorStore_createRepo ev (plan_did p) = Inr c
         \<and> filter is_sequencing (calls (snd (handler ctx ev inp requester w))) =
             filter is_sequencing (calls w) @
             (if plan_deactivated p then []
              else [SequenceIdentityEvt (plan_did p) (plan_handle p),
                    SequenceAccountEvt (plan_did p) Active,
                    SequenceCommit (plan_did p) c,
                    SequenceSyncEvt (plan_did p) (syncEvtDataFromCommit ev c)])))
   \<and> (fst (validateInputs ctx ev inp requester w) = Inr p \<and> plan_deactivated p \<longrightarrow>
        filter is_sequencing (calls (snd (handler ctx ev inp requester w))) =
          filter is_sequencing (calls w))"
proof (intro conjI impI)
  assume "fst (handler ctx ev inp requester w) = Inr r"
  then obtain w' where ok: "handler ctx ev inp requester w = (Inr r, w')"
    by (metis prod.collapse)
  then obtain p w1 where v: "validateInputs ctx ev inp requester w = (Inr p, w1)"
    and pr: "provision ctx ev p w1 = (Inr r, w')"
    by (auto simp: handler_def await_Inr_iff)
  have q: "filter is_sequencing (calls w1) = filter is_sequencing (calls w)"
    by (rule quietD [OF quiet_validateInputs v]) simp_all
  let ?w1 = "w1\<lparr>calls := calls w1 @ [ActorStoreCreate (plan_did p) (plan_signingKey p)],
                 actorStores := insert (plan_did p) (actorStores w1)\<rparr>"
  from pr obtain r0 where "tryBlock ctx ev p ?w1 = (Inr r0, w')"
    using provision_ok by blast
  then obtain c w2 where c: "actorStore_createRepo ev (plan_did p) = Inr c"
    and s: "submitToPrism ctx ev p (?w1\<lparr>calls := calls ?w1 @ [CreateRepo (plan_did p)]\<rparr>)
              = (Inr (), w2)"
    and ps: "persistAndSequence ev p c w2 = (Inr r0, w')"
    using tryBlock_ok by blast
  have "quiet is_sequencing (submitToPrism ctx ev p)"
    by (rule quiet_submitToPrism) simp_all
  from quietD [OF this s]
  have "filter is_sequencing (calls w2) = filter is_sequencing (calls w1)"
    by simp
  with q persistAndSequence_ok [OF ps] c v ok
  show "\<exists>p c. fst (validateInputs ctx ev inp requester w) = Inr p
         \<and> actorStore_createRepo ev (plan_did p) = Inr c
         \<and> filter is_sequencing (calls (snd (handler ctx ev inp requester w))) =
             filter is_sequencing (calls w) @
             (if plan_deactivated p then []
              else [SequenceIdentityEvt (plan_did p) (plan_handle p),
                    SequenceAccountEvt (plan_did p) Active,
                    SequenceCommit (plan_did p) c,
                    SequenceSyncEvt (plan_did p) (syncEvtDataFromCommit ev c)])"
    by (intro exI [of _ p] exI [of _ c]) simp
next
  assume h: "fst (validateInputs ctx ev inp requester w) = Inr p \<and> plan_deactivated p"
  show "filter is_sequencing (calls (snd (handler ctx ev inp requester w))) =
          filter is_sequencing (calls w)"
  proof -
    from h obtain w1 where v: "validateInputs ctx ev inp requester w = (Inr p, w1)"
      by (metis prod.collapse)
    have q: "filter is_sequencing (calls w1) = filter is_sequencing (calls w)"
      by (rule quietD [OF quiet_validateInputs v]) simp_all
    have "quiet is_sequencing (provision ctx ev p)"
      using h by (intro quiet_provision) simp_all
    then have "filter is_sequencing (calls (snd (provision ctx ev p w1))) =
        filter is_sequencing (calls w1)"
      by (simp add: quiet_def)
    with v q show ?thesis by (simp add: handler_run)
  qed
qed

text \<open>The statement above at the sample deployment.\<close>

theorem sequencing_order_witness:
  "fst (handler demo_ctx demo_env demo_input None world0)
     = Inr \<lparr>out_handle = ''alice.example'', out_did = ''did:prism:ewvi7nxzyoun6zhx'',
            out_didDoc = Some ''doc'', out_accessJwt = ''access'',
            out_refreshJwt = ''refresh''\<rparr>
   \<and> filter is_sequencing (calls (snd (handler demo_ctx demo_env demo_input None world0)))
     = [SequenceIdentityEvt ''did:prism:ewvi7nxzyoun6zhx'' ''alice.example'',
        SequenceAccountEvt ''did:prism:ewvi7nxzyoun6zhx'' Active,
        SequenceCommit ''did:prism:ewvi7nxzyoun6zhx'' demo_commit,
        SequenceSyncEvt ''did:prism:ewvi7nxzyoun6zhx'' ''car'']
   \<and> plan_deactivated (demo_plan\<lparr>plan_did := ''did:web:alice.example'', plan_plcOp := None,
                                   plan_deactivated := True\<rparr>)
   \<and> filter is_sequencing (calls (snd (handler demo_ctx demo_env
        (demo_input\<lparr>in_did := Some ''did:web:alice.example''\<rparr>)
        (Some ''did:web:alice.example'') world0))) = []"
proof -
  let ?r = "\<lparr>out_handle = ''alice.example'', out_did = ''did:prism:ewvi7nxzyoun6zhx'',
            out_didDoc = Some ''doc'', out_accessJwt = ''access'',
            out_refreshJwt = ''refresh''\<rparr>"
  let ?inpD = "demo_input\<lparr>in_did := Some ''did:web:alice.example''\<rparr>"
  let ?pD = "demo_plan\<lparr>plan_did := ''did:web:alice.example'', plan_plcOp := None,
                                   plan_deactivated := True\<rparr>"
  have h1: "fst (handler demo_ctx demo_env demo_input None world0) = Inr ?r"
    by (simp add: eval_defs)
  have v1: "fst (validateInputs demo_ctx demo_env demo_input None world0) = Inr demo_plan"
    by (simp add: eval_defs)
  have c1: "actorStore_createRepo demo_env d = Inr demo_commit" for d
    by (simp add: demo_env_def demo_env_post_rejected_def)
  have s1: "syncEvtDataFromCommit demo_env demo_commit = ''car''"
    by (simp add: demo_env_def demo_commit_def)
  have p1: "plan_did demo_plan = ''did:prism:ewvi7nxzyoun6zhx''"
    "plan_handle demo_plan = ''alice.example''" "\<not> plan_deactivated demo_plan"
    by (simp_all add: demo_plan_def)
  have w0: "calls world0 = []" by (simp add: world0_def)
  have v2: "fst (validateInputs demo_ctx demo_env ?inpD (Some ''did:web:alice.example'') world0)
      = Inr ?pD"
    by (simp add: eval_defs)
  have d2: "plan_deactivated ?pD" by simp
  from sequencing_order [of demo_ctx demo_env demo_input None world0 ?r] h1
  obtain p c where "fst (validateInputs demo_ctx demo_env demo_input None world0) = Inr p"
    "actorStore_createRepo demo_env (plan_did p) = Inr c"
    "filter is_sequencing (calls (snd (handler demo_ctx demo_env demo_input None world0))) =
       filter is_sequencing (calls world0) @
       (if plan_deactivated p then []
        else [SequenceIdentityEvt (plan_did p) (plan_handle p),
              SequenceAccountEvt (plan_did p) Active,
              SequenceCommit (plan_did p) c,
              SequenceSyncEvt (plan_did p) (syncEvtDataFromCommit demo_env c)])"
    by blast
  with v1 c1 s1 p1 w0
  have 1: "filter is_sequencing (calls (snd (handler demo_ctx demo_env demo_input None world0)))
     = [SequenceIdentityEvt ''did:prism:ewvi7nxzyoun6zhx'' ''alice.example'',
        SequenceAccountEvt ''did:prism:ewvi7nxzyoun6zhx'' Active,
        SequenceCommit ''did:prism:ewvi7nxzyoun6zhx'' demo_commit,
        SequenceSyncEvt ''did:prism:ewvi7nxzyoun6zhx'' ''car'']"
    by simp
  from sequencing_order [of demo_ctx demo_env ?inpD "Some ''did:web:alice.example''" world0 _ ?pD]
    v2 d2 w0
  have 2: "filter is_sequencing (calls (snd (handler demo_ctx demo_env ?inpD
        (Some ''did:web:alice.example'') world0))) = []"
    by simp
  from h1 1 d2 2 show ?thesis by (intro conjI)
qed

subsection \<open>A supplied DID on direct signup\<close>

text \<open>
  Claim C5, as amended. Take a direct-signup request that supplies a DID and no operation.
  If the DID differs from the requester's (or there is no requester), validation never
  yields a plan, and it throws \<^verbatim>\<open>AuthRequiredError\<close> once the request has passed the
  checks of lines 237 to 282 (before that, the error of the failing check). If the DID is
  the requester's, every plan that validation yields has this DID, no operation and
  \<^verbatim>\<open>deactivated = true\<close>, and a request that passes the checks does yield a plan. In all
  cases the handler posts nothing to the ledger.
\<close>

theorem local_supplied_did:
  assumes local: "\<not> entrywayAgent ctx"
    and did: "truthy (in_did inp)"
    and op: "in_plcOp inp = None"
  shows "(in_did inp \<noteq> requester \<longrightarrow>
            (\<forall>p. fst (validateInputs ctx ev inp requester w) \<noteq> Inr p)
            \<and> (passesLocalChecks ctx ev inp \<longrightarrow>
                 fst (validateInputs ctx ev inp requester w) =
                   Inl (AuthRequiredError
                          (''Missing auth to create account with did: '' @ the (in_did inp)))))
     \<and> (in_did inp = requester \<longrightarrow>
            (\<forall>p. fst (validateInputs ctx ev inp requester w) = Inr p \<longrightarrow>
                 plan_did p = the (in_did inp) \<and> plan_plcOp p = None \<and> plan_deactivated p)
            \<and> (passesLocalChecks ctx ev inp \<longrightarrow>
                 (\<exists>p. fst (validateInputs ctx ev inp requester w) = Inr p)))
     \<and> filter is_post (calls (snd (handler ctx ev inp requester w))) = filter is_post (calls w)"
proof -
  have v: "validateInputs ctx ev inp requester = validateInputsForLocalPds ctx ev inp requester"
    using local by (simp add: validateInputs_def)
  have plan: "in_did inp = requester \<and> plan_did p = the (in_did inp) \<and> plan_plcOp p = None
      \<and> plan_deactivated p"
    if "fst (validateInputs ctx ev inp requester w) = Inr p" for p
  proof -
    from that v obtain w1 where "validateInputsForLocalPds ctx ev inp requester w = (Inr p, w1)"
      by (metis prod.collapse)
    from local_supplied_plan [OF this did] show ?thesis .
  qed
  have posts: "filter is_post (calls (snd (handler ctx ev inp requester w))) =
      filter is_post (calls w)"
  proof -
    obtain r w1 where r: "validateInputs ctx ev inp requester w = (r, w1)"
      by (cases "validateInputs ctx ev inp requester w")
    have q: "filter is_post (calls w1) = filter is_post (calls w)"
      by (rule quietD [OF quiet_validateInputs r]) simp_all
    show ?thesis
    proof (cases r)
      case (Inl e)
      with r q show ?thesis by (simp add: handler_run)
    next
      case (Inr p)
      with r plan [of p] have "plan_plcOp p = None" by simp
      with r q Inr show ?thesis
        by (simp add: handler_run provision_posts tryBlock_posts world0_def split: sum.splits)
    qed
  qed
  have branch: "fst (validateInputs ctx ev inp requester w) =
      (if in_did inp \<noteq> requester
       then Inl (AuthRequiredError
                   (''Missing auth to create account with did: '' @ the (in_did inp)))
       else Inr \<lparr>plan_did = the (in_did inp),
                 plan_handle = projr (normalizeAndValidateHandle ev (in_handle inp) (in_did inp)),
                 plan_email = in_email inp, plan_password = in_password inp,
                 plan_inviteCode = in_inviteCode inp, plan_signingKey = secp256k1_create ev,
                 plan_plcOp = None, plan_deactivated = True\<rparr>)"
    if "passesLocalChecks ctx ev inp"
    using local_checks_reach_branch [OF that did] v by simp
  show ?thesis
  proof (intro conjI impI allI)
    fix p
    assume "in_did inp \<noteq> requester"
    then show "fst (validateInputs ctx ev inp requester w) \<noteq> Inr p"
      using plan [of p] by blast
  next
    assume "in_did inp \<noteq> requester" "passesLocalChecks ctx ev inp"
    then show "fst (validateInputs ctx ev inp requester w) =
        Inl (AuthRequiredError
               (''Missing auth to create account with did: '' @ the (in_did inp)))"
      using branch by simp
  next
    fix p
    assume "fst (validateInputs ctx ev inp requester w) = Inr p"
    then show "plan_did p = the (in_did inp)" "plan_plcOp p = None" "plan_deactivated p"
      using plan [of p] by simp_all
  next
    assume "in_did inp = requester" "passesLocalChecks ctx ev inp"
    then show "\<exists>p. fst (validateInputs ctx ev inp requester w) = Inr p"
      using branch by simp
  next
    show "filter is_post (calls (snd (handler ctx ev inp requester w))) =
        filter is_post (calls w)"
      by (rule posts)
  qed
qed

text \<open>The statement above at the sample deployment.\<close>

theorem local_supplied_did_witness:
  "\<not> entrywayAgent demo_ctx
   \<and> truthy (in_did (demo_input\<lparr>in_did := Some ''did:web:alice.example''\<rparr>))
   \<and> in_plcOp (demo_input\<lparr>in_did := Some ''did:web:alice.example''\<rparr>) = None
   \<and> passesLocalChecks demo_ctx demo_env (demo_input\<lparr>in_did := Some ''did:web:alice.example''\<rparr>)
   \<and> fst (validateInputs demo_ctx demo_env (demo_input\<lparr>in_did := Some ''did:web:alice.example''\<rparr>)
            None world0)
       = Inl (AuthRequiredError
                ''Missing auth to create account with did: did:web:alice.example'')
   \<and> (\<exists>p. fst (validateInputs demo_ctx demo_env
                 (demo_input\<lparr>in_did := Some ''did:web:alice.example''\<rparr>)
                 (Some ''did:web:alice.example'') world0) = Inr p
          \<and> plan_did p = ''did:web:alice.example'' \<and> plan_plcOp p = None
          \<and> plan_deactivated p)
   \<and> filter is_post (calls (snd (handler demo_ctx demo_env
          (demo_input\<lparr>in_did := Some ''did:web:alice.example''\<rparr>)
          (Some ''did:web:alice.example'') world0))) = []"
proof -
  let ?inp = "demo_input\<lparr>in_did := Some ''did:web:alice.example''\<rparr>"
  have h1: "\<not> entrywayAgent demo_ctx" by (simp add: demo_ctx_def)
  have h2: "truthy (in_did ?inp)" by (simp add: truthy_def)
  have h3: "in_plcOp ?inp = None" by (simp add: demo_input_def)
  have h4: "passesLocalChecks demo_ctx demo_env ?inp"
    by (simp add: passesLocalChecks_def truthy_def demo_ctx_def demo_env_def demo_input_def)
  have d: "in_did ?inp = Some ''did:web:alice.example''" "in_did ?inp \<noteq> None"
    "the (in_did ?inp) = ''did:web:alice.example''" "calls world0 = []"
    by (simp_all add: world0_def)
  note a = local_supplied_did [OF h1 h2 h3, of None demo_env world0]
  note b = local_supplied_did [OF h1 h2 h3, of "Some ''did:web:alice.example''" demo_env world0]
  from a h4 d have 1: "fst (validateInputs demo_ctx demo_env ?inp None world0)
       = Inl (AuthRequiredError
                ''Missing auth to create account with did: did:web:alice.example'')"
    by simp
  from b h4 d have 2: "\<exists>p. fst (validateInputs demo_ctx demo_env ?inp
                 (Some ''did:web:alice.example'') world0) = Inr p
          \<and> plan_did p = ''did:web:alice.example'' \<and> plan_plcOp p = None
          \<and> plan_deactivated p"
    by auto
  from b d have 3: "filter is_post (calls (snd (handler demo_ctx demo_env ?inp
          (Some ''did:web:alice.example'') world0))) = []"
    by simp
  from h1 h2 h3 h4 1 2 3 show ?thesis by (intro conjI)
qed

text \<open>
  Claim C5 as stated fails for a request with a foreign DID and no email: line 255 throws
  \<^verbatim>\<open>Email is required\<close> before the DID is compared with the requester.
\<close>

theorem local_did_email_counterexample:
  "\<not> entrywayAgent demo_ctx
   \<and> in_plcOp (demo_input\<lparr>in_did := Some ''did:web:mallory.example'', in_email := None\<rparr>) = None
   \<and> in_did (demo_input\<lparr>in_did := Some ''did:web:mallory.example'', in_email := None\<rparr>)
       \<noteq> Some ''did:web:alice.example''
   \<and> fst (handler demo_ctx demo_env
            (demo_input\<lparr>in_did := Some ''did:web:mallory.example'', in_email := None\<rparr>)
            (Some ''did:web:alice.example'') world0)
       = Inl (InvalidRequestError ''Email is required'' None)"
  by (simp add: eval_defs)

subsection \<open>The ledger transaction\<close>



subsection \<open>The settle delay and failed posts\<close>




subsection \<open>The account record and the commit\<close>

text \<open>
  Claim C8. When the handler succeeds, the writes it has added to the account store are
  exactly one \<^verbatim>\<open>createAccountAndSession\<close>, whose \<^verbatim>\<open>repoCid\<close> and \<^verbatim>\<open>repoRev\<close> are the
  \<^verbatim>\<open>cid\<close> and \<^verbatim>\<open>rev\<close> of the commit returned by the repository creation, followed by
  one \<^verbatim>\<open>updateRepoRoot\<close> with the same \<^verbatim>\<open>cid\<close> and \<^verbatim>\<open>rev\<close>.
\<close>

theorem account_record_matches_commit:
  assumes "fst (handler ctx ev inp requester w) = Inr r"
  shows "\<exists>p c. fst (validateInputs ctx ev inp requester w) = Inr p
     \<and> actorStore_createRepo ev (plan_did p) = Inr c
     \<and> filter is_account_write (calls (snd (handler ctx ev inp requester w))) =
         filter is_account_write (calls w) @
         [CreateAccountAndSession
            \<lparr>acc_did = plan_did p, acc_handle = plan_handle p, acc_email = plan_email p,
             acc_password = plan_password p, acc_repoCid = cid c, acc_repoRev = rev c,
             acc_inviteCode = plan_inviteCode p, acc_deactivated = plan_deactivated p\<rparr>,
          UpdateRepoRoot (plan_did p) (cid c) (rev c)]"
proof -
  from assms obtain w' where ok: "handler ctx ev inp requester w = (Inr r, w')"
    by (metis prod.collapse)
  then obtain p w1 where v: "validateInputs ctx ev inp requester w = (Inr p, w1)"
    and pr: "provision ctx ev p w1 = (Inr r, w')"
    by (auto simp: handler_def await_Inr_iff)
  have q: "filter is_account_write (calls w1) = filter is_account_write (calls w)"
    by (rule quietD [OF quiet_validateInputs v]) simp_all
  let ?w1 = "w1\<lparr>calls := calls w1 @ [ActorStoreCreate (plan_did p) (plan_signingKey p)],
                 actorStores := insert (plan_did p) (actorStores w1)\<rparr>"
  from pr obtain r0 where "tryBlock ctx ev p ?w1 = (Inr r0, w')"
    using provision_ok by blast
  then obtain c w2 where c: "actorStore_createRepo ev (plan_did p) = Inr c"
    and s: "submitToPrism ctx ev p (?w1\<lparr>calls := calls ?w1 @ [CreateRepo (plan_did p)]\<rparr>)
              = (Inr (), w2)"
    and ps: "persistAndSequence ev p c w2 = (Inr r0, w')"
    using tryBlock_ok by blast
  have "quiet is_account_write (submitToPrism ctx ev p)"
    by (rule quiet_submitToPrism) simp_all
  from quietD [OF this s]
  have "filter is_account_write (calls w2) = filter is_account_write (calls w1)"
    by simp
  with q persistAndSequence_ok [OF ps] c v ok show ?thesis
    by (intro exI [of _ p] exI [of _ c]) (simp add: accountFields_def)
qed

text \<open>The statement above at the sample deployment.\<close>

theorem account_record_matches_commit_witness:
  "fst (handler demo_ctx demo_env demo_input None world0)
     = Inr \<lparr>out_handle = ''alice.example'', out_did = ''did:prism:ewvi7nxzyoun6zhx'',
            out_didDoc = Some ''doc'', out_accessJwt = ''access'',
            out_refreshJwt = ''refresh''\<rparr>
   \<and> actorStore_createRepo demo_env ''did:prism:ewvi7nxzyoun6zhx''
     = Inr \<lparr>cid = ''bafyroot'', rev = ''3kabc'', blocks = ''car''\<rparr>
   \<and> filter is_account_write (calls (snd (handler demo_ctx demo_env demo_input None world0)))
     = [CreateAccountAndSession
          \<lparr>acc_did = ''did:prism:ewvi7nxzyoun6zhx'', acc_handle = ''alice.example'',
           acc_email = Some ''alice@example.com'', acc_password = Some ''hunter2'',
           acc_repoCid = ''bafyroot'', acc_repoRev = ''3kabc'', acc_inviteCode = None,
           acc_deactivated = False\<rparr>,
        UpdateRepoRoot ''did:prism:ewvi7nxzyoun6zhx'' ''bafyroot'' ''3kabc'']"
proof -
  let ?r = "\<lparr>out_handle = ''alice.example'', out_did = ''did:prism:ewvi7nxzyoun6zhx'',
            out_didDoc = Some ''doc'', out_accessJwt = ''access'',
            out_refreshJwt = ''refresh''\<rparr>"
  have h1: "fst (handler demo_ctx demo_env demo_input None world0) = Inr ?r"
    by (simp add: eval_defs)
  have v1: "fst (validateInputs demo_ctx demo_env demo_input None world0) = Inr demo_plan"
    by (simp add: eval_defs)
  have c1: "actorStore_createRepo demo_env d
      = Inr \<lparr>cid = ''bafyroot'', rev = ''3kabc'', blocks = ''car''\<rparr>" for d
    by (simp add: demo_env_def demo_commit_def)
  have p1: "plan_did demo_plan = ''did:prism:ewvi7nxzyoun6zhx''"
    "plan_handle demo_plan = ''alice.example''" "\<not> plan_deactivated demo_plan"
    "plan_email demo_plan = Some ''alice@example.com''"
    "plan_password demo_plan = Some ''hunter2''" "plan_inviteCode demo_plan = None"
    by (simp_all add: demo_plan_def)
  have w0: "calls world0 = []" by (simp add: world0_def)
  from account_record_matches_commit [OF h1]
  obtain p c where "fst (validateInputs demo_ctx demo_env demo_input None world0) = Inr p"
    "actorStore_createRepo demo_env (plan_did p) = Inr c"
    "filter is_account_write (calls (snd (handler demo_ctx demo_env demo_input None world0))) =
       filter is_account_write (calls world0) @
       [CreateAccountAndSession
          \<lparr>acc_did = plan_did p, acc_handle = plan_handle p, acc_email = plan_email p,
           acc_password = plan_password p, acc_repoCid = cid c, acc_repoRev = rev c,
           acc_inviteCode = plan_inviteCode p, acc_deactivated = plan_deactivated p\<rparr>,
        UpdateRepoRoot (plan_did p) (cid c) (rev c)]"
    by blast
  with v1 c1 p1 w0
  have "filter is_account_write (calls (snd (handler demo_ctx demo_env demo_input None world0)))
     = [CreateAccountAndSession
          \<lparr>acc_did = ''did:prism:ewvi7nxzyoun6zhx'', acc_handle = ''alice.example'',
           acc_email = Some ''alice@example.com'', acc_password = Some ''hunter2'',
           acc_repoCid = ''bafyroot'', acc_repoRev = ''3kabc'', acc_inviteCode = None,
           acc_deactivated = False\<rparr>,
        UpdateRepoRoot ''did:prism:ewvi7nxzyoun6zhx'' ''bafyroot'' ''3kabc'']"
    by auto
  with h1 c1 show ?thesis by (intro conjI)
qed

subsection \<open>The rotation keys of a minted operation\<close>

text \<open>
  Claim C9, as amended. The \<^verbatim>\<open>rotationKeys\<close> given to the operation builder are the
  caller's recovery key if one is supplied, then the configured recovery key if there is
  one, then the DID of the service's own key, which is therefore always the last entry.
  Nothing removes duplicates.
\<close>

theorem rotationKeys_order:
  "calls (snd (formatDidAndPlcOp ctx ev handle inp signingKey w)) =
     calls w @
     [PlcCreateOp
        \<lparr>co_signingKey = keypair_did signingKey,
         co_rotationKeys =
           supplied (in_recoveryKey inp) @ supplied (cfg_identity_recoveryDidKey ctx)
             @ [keypair_did (plcRotationKey ctx)],
         co_handle = handle, co_pds = cfg_service_publicUrl ctx,
         co_signer = plcRotationKey ctx\<rparr>]
   \<and> formatRotationKeys ctx inp =
       supplied (in_recoveryKey inp) @ supplied (cfg_identity_recoveryDidKey ctx)
         @ [keypair_did (plcRotationKey ctx)]
   \<and> keypair_did (plcRotationKey ctx) \<in> set (formatRotationKeys ctx inp)
   \<and> last (formatRotationKeys ctx inp) = keypair_did (plcRotationKey ctx)"
proof (intro conjI)
  show "calls (snd (formatDidAndPlcOp ctx ev handle inp signingKey w)) =
     calls w @
     [PlcCreateOp
        \<lparr>co_signingKey = keypair_did signingKey,
         co_rotationKeys =
           supplied (in_recoveryKey inp) @ supplied (cfg_identity_recoveryDidKey ctx)
             @ [keypair_did (plcRotationKey ctx)],
         co_handle = handle, co_pds = cfg_service_publicUrl ctx,
         co_signer = plcRotationKey ctx\<rparr>]"
    unfolding formatDidAndPlcOp_def formatRotationKeys_eq
    by (cases "plc_createOp ev \<lparr>co_signingKey = keypair_did signingKey,
         co_rotationKeys =
           supplied (in_recoveryKey inp) @ supplied (cfg_identity_recoveryDidKey ctx)
             @ [keypair_did (plcRotationKey ctx)],
         co_handle = handle, co_pds = cfg_service_publicUrl ctx,
         co_signer = plcRotationKey ctx\<rparr>")
      (simp_all add: createOp_run await_def ret_def)
qed (simp_all add: formatRotationKeys_eq)

text \<open>The statement above at the sample deployment.\<close>

theorem rotationKeys_order_witness:
  "calls (snd (formatDidAndPlcOp demo_ctx demo_env ''alice.example''
        (demo_input\<lparr>in_recoveryKey := Some ''did:key:zUserRecovery''\<rparr>)
        (Keypair ''did:key:zFresh'') world0))
      = [PlcCreateOp
           \<lparr>co_signingKey = ''did:key:zFresh'',
            co_rotationKeys =
              [''did:key:zUserRecovery'', ''did:key:zRecovery'', ''did:key:zService''],
            co_handle = ''alice.example'', co_pds = ''https://pds.example'',
            co_signer = Keypair ''did:key:zService''\<rparr>]
   \<and> formatRotationKeys demo_ctx demo_input = [''did:key:zRecovery'', ''did:key:zService'']"
  using rotationKeys_order [of demo_ctx demo_env "''alice.example''"
      "demo_input\<lparr>in_recoveryKey := Some ''did:key:zUserRecovery''\<rparr>"
      "Keypair ''did:key:zFresh''" world0]
    rotationKeys_order [of demo_ctx demo_env "''alice.example''" demo_input
      "Keypair ''did:key:zFresh''" world0]
  by (simp add: supplied_def truthy_def demo_ctx_def demo_input_def world0_def)

text \<open>
  Claim C9 as stated fails when the caller's recovery key is the configured one: the
  builder receives that key twice.
\<close>

theorem rotationKeys_counterexample:
  "in_recoveryKey (demo_input\<lparr>in_recoveryKey := Some ''did:key:zRecovery''\<rparr>)
     = cfg_identity_recoveryDidKey demo_ctx
   \<and> calls (snd (formatDidAndPlcOp demo_ctx demo_env ''alice.example''
        (demo_input\<lparr>in_recoveryKey := Some ''did:key:zRecovery''\<rparr>)
        (Keypair ''did:key:zFresh'') world0))
      = [PlcCreateOp
           \<lparr>co_signingKey = ''did:key:zFresh'',
            co_rotationKeys =
              [''did:key:zRecovery'', ''did:key:zRecovery'', ''did:key:zService''],
            co_handle = ''alice.example'', co_pds = ''https://pds.example'',
            co_signer = Keypair ''did:key:zService''\<rparr>]
   \<and> \<not> distinct [''did:key:zRecovery'', ''did:key:zRecovery'', ''did:key:zService'']"
  by (simp add: eval_defs)

subsection \<open>The DID of the wrapper\<close>

text \<open>
  Claim C10. When the library's \<^verbatim>\<open>createOp\<close> returns, the wrapper returns the same result
  with only \<^verbatim>\<open>did\<close> changed, by replacing the first \<^verbatim>\<open>did:plc:\<close> with \<^verbatim>\<open>did:prism:\<close>;
  for a library DID that starts with \<^verbatim>\<open>did:plc:\<close> this replaces the prefix. So, given
  that the library's DIDs start with \<^verbatim>\<open>did:plc:\<close>, every DID minted by direct signup
  starts with \<^verbatim>\<open>did:prism:\<close>.
\<close>

theorem createOp_prism_did:
  "(plc_createOp ev inp = Inr result \<longrightarrow>
      createOp ev inp w =
        (Inr (result\<lparr>res_did := js_replace ''did:plc:'' ''did:prism:'' (res_did result)\<rparr>),
         w\<lparr>calls := calls w @ [PlcCreateOp inp]\<rparr>)
      \<and> (\<forall>rest. res_did result = ''did:plc:'' @ rest \<longrightarrow>
             fst (createOp ev inp w) = Inr (result\<lparr>res_did := ''did:prism:'' @ rest\<rparr>)))
   \<and> ((\<forall>i r. plc_createOp ev i = Inr r \<longrightarrow> (\<exists>rest. res_did r = ''did:plc:'' @ rest))
        \<and> \<not> truthy (in_did input)
        \<and> fst (validateInputsForLocalPds ctx ev input requester w) = Inr p
      \<longrightarrow> (\<exists>rest. plan_did p = ''did:prism:'' @ rest))"
proof (intro conjI impI allI)
  assume lib: "plc_createOp ev inp = Inr result"
  then show "createOp ev inp w =
        (Inr (result\<lparr>res_did := js_replace ''did:plc:'' ''did:prism:'' (res_did result)\<rparr>),
         w\<lparr>calls := calls w @ [PlcCreateOp inp]\<rparr>)"
    by (simp add: createOp_run)
  fix rest
  assume "res_did result = ''did:plc:'' @ rest"
  then have "js_replace ''did:plc:'' ''did:prism:'' (res_did result) = ''did:prism:'' @ rest"
    by (simp only: js_replace_prefix)
  with lib show "fst (createOp ev inp w) = Inr (result\<lparr>res_did := ''did:prism:'' @ rest\<rparr>)"
    by (simp add: createOp_run)
next
  assume h: "(\<forall>i r. plc_createOp ev i = Inr r \<longrightarrow> (\<exists>rest. res_did r = ''did:plc:'' @ rest))
        \<and> \<not> truthy (in_did input)
        \<and> fst (validateInputsForLocalPds ctx ev input requester w) = Inr p"
  then obtain w' where "validateInputsForLocalPds ctx ev input requester w = (Inr p, w')"
    by (metis prod.collapse)
  with h obtain i r where r: "plc_createOp ev i = Inr r"
      "plan_did p = js_replace ''did:plc:'' ''did:prism:'' (res_did r)"
    using local_minted_plan by blast
  with h obtain rest where "res_did r = ''did:plc:'' @ rest" by blast
  with r have "plan_did p = ''did:prism:'' @ rest"
    by (simp only: js_replace_prefix)
  then show "\<exists>rest. plan_did p = ''did:prism:'' @ rest" ..
qed

text \<open>The statement above at the sample deployment.\<close>

theorem createOp_prism_did_witness:
  "plc_createOp demo_env
     \<lparr>co_signingKey = ''did:key:zFresh'',
      co_rotationKeys = [''did:key:zRecovery'', ''did:key:zService''],
      co_handle = ''alice.example'', co_pds = ''https://pds.example'',
      co_signer = Keypair ''did:key:zService''\<rparr>
     = Inr \<lparr>res_op = demo_op\<lparr>rotationKeys := [''did:key:zRecovery'', ''did:key:zService'']\<rparr>,
            res_did = ''did:plc:ewvi7nxzyoun6zhx''\<rparr>
   \<and> fst (createOp demo_env
        \<lparr>co_signingKey = ''did:key:zFresh'',
         co_rotationKeys = [''did:key:zRecovery'', ''did:key:zService''],
         co_handle = ''alice.example'', co_pds = ''https://pds.example'',
         co_signer = Keypair ''did:key:zService''\<rparr> world0)
     = Inr \<lparr>res_op = demo_op\<lparr>rotationKeys := [''did:key:zRecovery'', ''did:key:zService'']\<rparr>,
            res_did = ''did:prism:ewvi7nxzyoun6zhx''\<rparr>
   \<and> fst (validateInputsForLocalPds demo_ctx demo_env demo_input None world0) = Inr demo_plan
   \<and> (\<exists>rest. plan_did demo_plan = ''did:prism:'' @ rest)"
proof -
  let ?inp = "\<lparr>co_signingKey = ''did:key:zFresh'',
      co_rotationKeys = [''did:key:zRecovery'', ''did:key:zService''],
      co_handle = ''alice.example'', co_pds = ''https://pds.example'',
      co_signer = Keypair ''did:key:zService''\<rparr>"
  let ?res = "\<lparr>res_op = demo_op\<lparr>rotationKeys := [''did:key:zRecovery'', ''did:key:zService'']\<rparr>,
            res_did = ''did:plc:ewvi7nxzyoun6zhx''\<rparr>"
  note T = createOp_prism_did [of demo_env ?inp ?res world0 demo_input demo_ctx None demo_plan]
  have a: "plc_createOp demo_env ?inp = Inr ?res"
    by (simp add: demo_env_def demo_env_post_rejected_def)
  have b: "res_did ?res = ''did:plc:'' @ ''ewvi7nxzyoun6zhx''"
    by simp
  have c: "\<forall>i r. plc_createOp demo_env i = Inr r \<longrightarrow> (\<exists>rest. res_did r = ''did:plc:'' @ rest)"
    by (auto simp: demo_env_def)
  have d: "\<not> truthy (in_did demo_input)"
    by (simp add: truthy_def demo_input_def)
  have e: "fst (validateInputsForLocalPds demo_ctx demo_env demo_input None world0) = Inr demo_plan"
    by (simp add: eval_defs)
  from T a b have 1: "fst (createOp demo_env ?inp world0)
      = Inr (?res\<lparr>res_did := ''did:prism:'' @ ''ewvi7nxzyoun6zhx''\<rparr>)"
    by blast
  from T c d e have 2: "\<exists>rest. plan_did demo_plan = ''did:prism:'' @ rest"
    by blast
  from a 1 e 2 show ?thesis by simp
qed

end
